theory Spec2Isabelle
  imports Complex_Main
begin

section \<open>Usage ledger: the in-memory storage of server/storage.ts\<close>

text \<open>
  A JavaScript \<open>Date\<close> is modelled by its time value, the milliseconds since the epoch.
  \<open>Date.prototype.toDateString\<close> renders the calendar day of a time value in the time
  zone of the host; it is taken as a parameter \<open>toDateString\<close> of the operations that
  call it. One call of a storage method is taken at one instant \<open>now\<close>: every
  \<open>new Date()\<close> inside the call reads that instant. Counters and ids are JavaScript
  numbers that hold integers, exact below \<open>2^53\<close>; they are modelled as \<open>int\<close>.
\<close>

type_synonym timestamp = int

text \<open>The row type \<open>User\<close> of shared/schema.ts (table \<open>users\<close>).\<close>

record User =
  user_id :: int
  username :: string
  password :: string
  email :: "string option"
  subscriptionPlan :: string
  subscriptionEndDate :: "timestamp option"
  stripeCustomerId :: "string option"
  stripeSubscriptionId :: "string option"
  dailyIdentificationsCount :: "int option"
  lastIdentificationDate :: "timestamp option"

record InsertUser =
  ins_username :: string
  ins_password :: string

text \<open>The row type \<open>BirdIdentification\<close>; the jsonb payload is the type parameter.\<close>

record 'r BirdIdentification =
  ident_id :: int
  userId :: "int option"
  ident_imageUrl :: string
  result :: 'r
  identifiedAt :: timestamp

record 'r InsertBirdIdentification =
  ins_userId :: "int option"
  ins_imageUrl :: string
  ins_result :: 'r

record DailyLimitCheckResult =
  withinLimit :: bool
  current :: int
  limit :: int

text \<open>
  The table \<open>subscriptionLimitsMap\<close> of shared/schema.ts, with the nested groups
  flattened. A numeric limit is a number or \<open>Infinity\<close>.
\<close>

datatype jslimit = Infinity | Finite int

record SubscriptionLimits =
  identifications_perDay :: jslimit
  identifications_history :: jslimit
  sightings_total :: jslimit
  birdDatabase_fullAccess :: bool
  birdDatabase_offlineAccess :: bool
  birdDatabase_detailedInfo :: bool

definition subscriptionLimitsMap :: "string \<rightharpoonup> SubscriptionLimits" where
  "subscriptionLimitsMap =
     [''free'' \<mapsto>
        \<lparr>identifications_perDay = Finite 5, identifications_history = Finite 3,
         sightings_total = Finite 10, birdDatabase_fullAccess = False,
         birdDatabase_offlineAccess = False, birdDatabase_detailedInfo = False\<rparr>,
      ''premium'' \<mapsto>
        \<lparr>identifications_perDay = Infinity, identifications_history = Finite 30,
         sightings_total = Infinity, birdDatabase_fullAccess = True,
         birdDatabase_offlineAccess = True, birdDatabase_detailedInfo = True\<rparr>]"

text \<open>
  \<open>new Error(`User with id ${id} not found`)\<close>, the only error the storage throws on
  the paths modelled here, carries the id.
\<close>

datatype storage_error = UserNotFound int

text \<open>
  The class \<open>MemStorage\<close>. \<open>identifications\<close> is a JavaScript \<open>Map\<close>, whose
  iteration order is the insertion order: an association list.
\<close>

record 'r MemStorage =
  users :: "int \<rightharpoonup> User"
  identifications :: "(int \<times> 'r BirdIdentification) list"
  userIdCounter :: int
  identificationIdCounter :: int

definition MemStorage_new :: "'r MemStorage" where
  "MemStorage_new =
     \<lparr>users = Map.empty, identifications = [], userIdCounter = 1, identificationIdCounter = 1\<rparr>"

text \<open>\<open>Map.prototype.set\<close>: an existing key keeps its place, a new key goes last.\<close>

fun map_set :: "('k \<times> 'v) list \<Rightarrow> 'k \<Rightarrow> 'v \<Rightarrow> ('k \<times> 'v) list" where
  "map_set [] k v = [(k, v)]"
| "map_set ((k', v') # m) k v = (if k' = k then (k, v) # m else (k', v') # map_set m k v)"

definition getUser :: "'r MemStorage \<Rightarrow> int \<Rightarrow> User option" where
  "getUser st i = users st i"

definition createUser :: "'r MemStorage \<Rightarrow> InsertUser \<Rightarrow> User \<times> 'r MemStorage" where
  "createUser st insertUser =
     (let i = userIdCounter st;
          u = \<lparr>user_id = i, username = ins_username insertUser,
               password = ins_password insertUser, email = None,
               subscriptionPlan = ''free'', subscriptionEndDate = None,
               stripeCustomerId = None, stripeSubscriptionId = None,
               dailyIdentificationsCount = Some 0, lastIdentificationDate = None\<rparr>
      in (u, st\<lparr>users := (users st)(i \<mapsto> u), userIdCounter := i + 1\<rparr>))"

text \<open>
  \<open>updateUser(id, updates)\<close>: the partial record \<open>updates\<close> is the function that
  overwrites the fields it names.
\<close>

definition updateUser ::
  "'r MemStorage \<Rightarrow> int \<Rightarrow> (User \<Rightarrow> User) \<Rightarrow> storage_error + (User \<times> 'r MemStorage)" where
  "updateUser st i updates =
     (case users st i of
        None \<Rightarrow> Inl (UserNotFound i)
      | Some u \<Rightarrow>
          (let updatedUser = updates u
           in Inr (updatedUser, st\<lparr>users := (users st)(i \<mapsto> updatedUser)\<rparr>)))"

definition updateUserSubscription ::
  "'r MemStorage \<Rightarrow> int \<Rightarrow> string \<Rightarrow> timestamp option \<Rightarrow> storage_error + (User \<times> 'r MemStorage)" where
  "updateUserSubscription st i plan endDate =
     (case getUser st i of
        None \<Rightarrow> Inl (UserNotFound i)
      | Some u \<Rightarrow>
          updateUser st i (\<lambda>u. u\<lparr>subscriptionPlan := plan, subscriptionEndDate := endDate\<rparr>))"

definition resetDailyIdentificationCount ::
  "'r MemStorage \<Rightarrow> timestamp \<Rightarrow> int \<Rightarrow> storage_error + 'r MemStorage" where
  "resetDailyIdentificationCount st now i =
     (case updateUser st i
             (\<lambda>u. u\<lparr>dailyIdentificationsCount := Some 0, lastIdentificationDate := Some now\<rparr>) of
        Inl e \<Rightarrow> Inl e
      | Inr (_, st') \<Rightarrow> Inr st')"

text \<open>
  The local \<open>isNewDay\<close> of both usage methods:
  \<open>user.lastIdentificationDate ? new Date().toDateString() !==
   new Date(user.lastIdentificationDate).toDateString() : true\<close>. A \<open>Date\<close> object is
  truthy, \<open>null\<close> is not.
\<close>

definition isNewDay :: "(timestamp \<Rightarrow> 'd) \<Rightarrow> timestamp \<Rightarrow> User \<Rightarrow> bool" where
  "isNewDay toDateString now u =
     (case lastIdentificationDate u of
        None \<Rightarrow> True
      | Some d \<Rightarrow> toDateString now \<noteq> toDateString d)"

text \<open>\<open>user.dailyIdentificationsCount || 0\<close>: \<open>null\<close> and \<open>0\<close> are falsy.\<close>

definition countOrZero :: "User \<Rightarrow> int" where
  "countOrZero u = (case dailyIdentificationsCount u of None \<Rightarrow> 0 | Some c \<Rightarrow> c)"

text \<open>
  The local \<open>limit\<close> of the check is \<open>Infinity\<close> or \<open>5\<close>;
  \<open>current < limit\<close> compares a count with it.
\<close>

fun less_limit :: "int \<Rightarrow> jslimit \<Rightarrow> bool" where
  "less_limit c Infinity = True"
| "less_limit c (Finite n) = (c < n)"

definition checkDailyIdentificationLimit ::
  "(timestamp \<Rightarrow> 'd) \<Rightarrow> 'r MemStorage \<Rightarrow> timestamp \<Rightarrow> int
     \<Rightarrow> storage_error + (DailyLimitCheckResult \<times> 'r MemStorage)" where
  "checkDailyIdentificationLimit toDateString st now i =
     (case getUser st i of
        None \<Rightarrow> Inl (UserNotFound i)
      | Some u \<Rightarrow>
          if isNewDay toDateString now u then
            (case resetDailyIdentificationCount st now i of
               Inl e \<Rightarrow> Inl e
             | Inr st' \<Rightarrow> Inr (\<lparr>withinLimit = True, current = 0, limit = 5\<rparr>, st'))
          else
            (let lim = (if subscriptionPlan u = ''premium'' then Infinity else Finite 5);
                 cur = countOrZero u
             in Inr (\<lparr>withinLimit = less_limit cur lim, current = cur,
                      limit = (case lim of Infinity \<Rightarrow> - 1 | Finite n \<Rightarrow> n)\<rparr>, st)))"

definition incrementDailyIdentificationCount ::
  "(timestamp \<Rightarrow> 'd) \<Rightarrow> 'r MemStorage \<Rightarrow> timestamp \<Rightarrow> int \<Rightarrow> storage_error + (int \<times> 'r MemStorage)" where
  "incrementDailyIdentificationCount toDateString st now i =
     (case getUser st i of
        None \<Rightarrow> Inl (UserNotFound i)
      | Some u \<Rightarrow>
          (let count = (if isNewDay toDateString now u then 1 else countOrZero u + 1)
           in case updateUser st i
                     (\<lambda>u. u\<lparr>dailyIdentificationsCount := Some count,
                            lastIdentificationDate := Some now\<rparr>) of
                Inl e \<Rightarrow> Inl e
              | Inr (_, st') \<Rightarrow> Inr (count, st')))"

text \<open>
  A sequence of calls of \<open>incrementDailyIdentificationCount\<close> for one user, one call per
  instant of the list; it returns what each call returned.
\<close>

fun incrementCalls ::
  "(timestamp \<Rightarrow> 'd) \<Rightarrow> 'r MemStorage \<Rightarrow> int \<Rightarrow> timestamp list
     \<Rightarrow> storage_error + (int list \<times> 'r MemStorage)" where
  "incrementCalls toDateString st i [] = Inr ([], st)"
| "incrementCalls toDateString st i (now # nows) =
     (case incrementDailyIdentificationCount toDateString st now i of
        Inl e \<Rightarrow> Inl e
      | Inr (c, st') \<Rightarrow>
          (case incrementCalls toDateString st' i nows of
             Inl e \<Rightarrow> Inl e
           | Inr (cs, st'') \<Rightarrow> Inr (c # cs, st'')))"

text \<open>
  \<open>createIdentification\<close>. \<open>if (insertIdentification.userId)\<close> is a truthiness test:
  \<open>null\<close>, \<open>undefined\<close> and \<open>0\<close> skip the increment, and \<open>userId || null\<close> stores
  \<open>null\<close> for them (\<open>truthy_id\<close>). The id counter is advanced before anything can
  throw, so the method returns the storage it leaves behind also when it throws. (The
  other methods above throw before they write: their error leaves the storage as it was.)
\<close>

definition truthy_id :: "int option \<Rightarrow> bool" where
  "truthy_id x = (case x of None \<Rightarrow> False | Some n \<Rightarrow> n \<noteq> 0)"

definition createIdentification ::
  "(timestamp \<Rightarrow> 'd) \<Rightarrow> 'r MemStorage \<Rightarrow> timestamp \<Rightarrow> 'r InsertBirdIdentification
     \<Rightarrow> (storage_error + 'r BirdIdentification) \<times> 'r MemStorage" where
  "createIdentification toDateString st now insertIdentification =
     (let i = identificationIdCounter st;
          st1 = st\<lparr>identificationIdCounter := i + 1\<rparr>;
          incremented =
            (case ins_userId insertIdentification of
               None \<Rightarrow> Inr st1
             | Some uid \<Rightarrow>
                 if uid \<noteq> 0
                 then (case incrementDailyIdentificationCount toDateString st1 now uid of
                         Inl e \<Rightarrow> Inl e
                       | Inr (_, st2) \<Rightarrow> Inr st2)
                 else Inr st1)
      in case incremented of
           Inl e \<Rightarrow> (Inl e, st1)
         | Inr st2 \<Rightarrow>
             (let identification =
                    \<lparr>ident_id = i,
                     userId = (if truthy_id (ins_userId insertIdentification)
                               then ins_userId insertIdentification else None),
                     ident_imageUrl = ins_imageUrl insertIdentification,
                     result = ins_result insertIdentification,
                     identifiedAt = now\<rparr>
              in (Inr identification,
                  st2\<lparr>identifications := map_set (identifications st2) i identification\<rparr>)))"

text \<open>
  \<open>Array.prototype.slice(0, n)\<close> for an integer \<open>n\<close>: a negative \<open>n\<close> counts from
  the end.
\<close>

definition slice0 :: "'a list \<Rightarrow> int \<Rightarrow> 'a list" where
  "slice0 xs n = (if n < 0 then take (nat (int (length xs) + n)) xs else take (nat n) xs)"

text \<open>
  \<open>getRecentIdentifications(userId?, limit = 10)\<close>. \<open>Array.prototype.sort\<close> is stable,
  and so is \<open>sort_key\<close>; the comparator orders by \<open>identifiedAt\<close>, newest first.
\<close>

definition getRecentIdentifications ::
  "'r MemStorage \<Rightarrow> int option \<Rightarrow> int option \<Rightarrow> 'r BirdIdentification list" where
  "getRecentIdentifications st userId_arg limit_arg =
     (let limit0 = (case limit_arg of None \<Rightarrow> 10 | Some l \<Rightarrow> l);
          all = map snd (identifications st);
          (idents, lim) =
            (case userId_arg of
               None \<Rightarrow> (all, limit0)
             | Some uid \<Rightarrow>
                 (filter (\<lambda>r. userId r = Some uid) all,
                  (case getUser st uid of
                     Some u \<Rightarrow>
                       (let historyLimit = (if subscriptionPlan u = ''premium'' then 30 else 3)
                        in min limit0 historyLimit)
                   | None \<Rightarrow> limit0)))
      in slice0 (sort_key (\<lambda>r. - identifiedAt r) idents) lim)"

section \<open>Result normalizer: the response handling of identifyBirdWithGemini\<close>

text \<open>
  The function \<open>identifyBirdWithGemini\<close> (server/gemini.ts) sends the prompt, parses the
  reply with \<open>JSON.parse\<close> and normalizes the parsed value. The model starts at the
  parsed value \<open>parsedResponse\<close>.

  A JavaScript number is a double: a finite double is a rational number, and
  \<open>JSON.parse\<close> yields \<open>Infinity\<close> for a literal beyond the range.
\<close>

datatype jsnumber = Num rat | PosInf | NegInf | NaN

datatype json =
    JNull
  | JBool bool
  | JNum jsnumber
  | JStr string
  | JArr "json list"
  | JObj "(string \<times> json) list"

text \<open>A JavaScript value is a JSON value or \<open>undefined\<close> (\<open>None\<close>).\<close>

type_synonym jsvalue = "json option"

text \<open>
  What is thrown inside the function: \<open>new Error(message)\<close>, a \<open>TypeError\<close> of the
  runtime, or the \<open>ZodError\<close> of \<open>identificationResultSchema.parse\<close>.
\<close>

datatype error = Error string | TypeError | ZodError

definition bindE :: "error + 'a \<Rightarrow> ('a \<Rightarrow> error + 'b) \<Rightarrow> error + 'b" where
  "bindE m f = (case m of Inl e \<Rightarrow> Inl e | Inr x \<Rightarrow> f x)"

fun mapE :: "('a \<Rightarrow> error + 'b) \<Rightarrow> 'a list \<Rightarrow> error + 'b list" where
  "mapE f [] = Inr []"
| "mapE f (x # xs) = bindE (f x) (\<lambda>y. bindE (mapE f xs) (\<lambda>ys. Inr (y # ys)))"

text \<open>
  The conversions of the runtime that the model does not spell out are parameters:
  \<open>ToNumber\<close> of a string, an array or an object (an object with an own
  \<open>valueOf\<close> or \<open>toString\<close> makes it throw), and \<open>ToString\<close> of a value that is
  not a string.
\<close>

record host =
  ToNumber_host :: "json \<Rightarrow> error + jsnumber"
  ToString_host :: "json \<Rightarrow> error + string"

fun truthy :: "json \<Rightarrow> bool" where
  "truthy JNull = False"
| "truthy (JBool b) = b"
| "truthy (JNum (Num x)) = (x \<noteq> 0)"
| "truthy (JNum NaN) = False"
| "truthy (JNum PosInf) = True"
| "truthy (JNum NegInf) = True"
| "truthy (JStr s) = (s \<noteq> [])"
| "truthy (JArr xs) = True"
| "truthy (JObj ps) = True"

definition truthyv :: "jsvalue \<Rightarrow> bool" where
  "truthyv v = (case v of None \<Rightarrow> False | Some j \<Rightarrow> truthy j)"

text \<open>\<open>v || d\<close> for a default \<open>d\<close> that is a JSON value.\<close>

definition orElse :: "jsvalue \<Rightarrow> json \<Rightarrow> json" where
  "orElse v d = (case v of None \<Rightarrow> d | Some j \<Rightarrow> if truthy j then j else d)"

text \<open>
  The property read \<open>v.k\<close> (\<open>getProp\<close>). On \<open>null\<close> and \<open>undefined\<close> it
  throws a \<open>TypeError\<close>. On any other value it is \<open>propOf\<close>: the own property
  of an object (\<open>JObj\<close> lists the own properties of a parsed object, whose keys are
  distinct), and \<open>undefined\<close> on an array, a string, a number or a boolean, since
  none of the names the function reads is inherited from a prototype.
\<close>

fun propOf :: "json \<Rightarrow> string \<Rightarrow> jsvalue" where
  "propOf (JObj ps) k = map_of ps k"
| "propOf j k = None"

definition getProp :: "jsvalue \<Rightarrow> string \<Rightarrow> error + jsvalue" where
  "getProp v k =
     (case v of
        None \<Rightarrow> Inl TypeError
      | Some JNull \<Rightarrow> Inl TypeError
      | Some j \<Rightarrow> Inr (propOf j k))"

text \<open>An object literal; a key whose value is \<open>undefined\<close> is left out.\<close>

fun objFields :: "(string \<times> jsvalue) list \<Rightarrow> (string \<times> json) list" where
  "objFields [] = []"
| "objFields ((k, None) # kvs) = objFields kvs"
| "objFields ((k, Some j) # kvs) = (k, j) # objFields kvs"

definition obj :: "(string \<times> jsvalue) list \<Rightarrow> json" where
  "obj kvs = JObj (objFields kvs)"

subsection \<open>Math.round, Math.max, Math.min\<close>

definition ToNumber :: "host \<Rightarrow> json \<Rightarrow> error + jsnumber" where
  "ToNumber h j =
     (case j of
        JNum x \<Rightarrow> Inr x
      | JBool b \<Rightarrow> Inr (Num (if b then 1 else 0))
      | JNull \<Rightarrow> Inr (Num 0)
      | _ \<Rightarrow> ToNumber_host h j)"

text \<open>\<open>Math.round\<close>: the nearest integer, a tie going up.\<close>

fun Math_round :: "jsnumber \<Rightarrow> jsnumber" where
  "Math_round (Num x) = Num (of_int \<lfloor>x + 1 / 2\<rfloor>)"
| "Math_round PosInf = PosInf"
| "Math_round NegInf = NegInf"
| "Math_round NaN = NaN"

fun js_le :: "jsnumber \<Rightarrow> jsnumber \<Rightarrow> bool" where
  "js_le NaN b = False"
| "js_le a NaN = False"
| "js_le NegInf b = True"
| "js_le a PosInf = True"
| "js_le PosInf b = False"
| "js_le a NegInf = False"
| "js_le (Num x) (Num y) = (x \<le> y)"

definition Math_max :: "jsnumber \<Rightarrow> jsnumber \<Rightarrow> jsnumber" where
  "Math_max a b = (if a = NaN \<or> b = NaN then NaN else if js_le a b then b else a)"

definition Math_min :: "jsnumber \<Rightarrow> jsnumber \<Rightarrow> jsnumber" where
  "Math_min a b = (if a = NaN \<or> b = NaN then NaN else if js_le a b then a else b)"

text \<open>\<open>Math.min(Math.max(1, Math.round(c || 0)), 100)\<close> for the property value \<open>c\<close>.\<close>

definition clampConfidence :: "host \<Rightarrow> jsvalue \<Rightarrow> error + jsnumber" where
  "clampConfidence h c =
     bindE (ToNumber h (orElse c (JNum (Num 0))))
       (\<lambda>x. Inr (Math_min (Math_max (Num 1) (Math_round x)) (Num 100)))"

subsection \<open>The object the function assembles\<close>

text \<open>
  The nested groups: \<open>g ? {k1: g.k1, ...} : undefined\<close>. A truthy \<open>g\<close> is neither
  \<open>null\<close> nor \<open>undefined\<close>, so its property reads do not throw.
\<close>

definition pick :: "json \<Rightarrow> string list \<Rightarrow> json" where
  "pick g ks = obj (map (\<lambda>k. (k, propOf g k)) ks)"

definition group :: "jsvalue \<Rightarrow> string list \<Rightarrow> jsvalue" where
  "group g ks = (case g of None \<Rightarrow> None | Some j \<Rightarrow> if truthy j then Some (pick j ks) else None)"

definition migrationPatterns_raw :: "jsvalue \<Rightarrow> jsvalue" where
  "migrationPatterns_raw g =
     (case g of
        None \<Rightarrow> None
      | Some j \<Rightarrow>
          if truthy j then
            Some (obj [(''migratory'', Some (JBool (truthyv (propOf j ''migratory'')))),
                       (''migrationSeason'', propOf j ''migrationSeason''),
                       (''migrationRoute'', propOf j ''migrationRoute''),
                       (''winteringGrounds'', propOf j ''winteringGrounds''),
                       (''breedingGrounds'', propOf j ''breedingGrounds'')])
          else None)"

definition mainBird_raw :: "host \<Rightarrow> json \<Rightarrow> error + json" where
  "mainBird_raw h mb =
     bindE (clampConfidence h (propOf mb ''confidence''))
       (\<lambda>c. Inr (obj
          [(''name'', Some (orElse (propOf mb ''name'') (JStr ''Unknown Bird''))),
           (''scientificName'',
              Some (orElse (propOf mb ''scientificName'') (JStr ''Unknown Species''))),
           (''confidence'', Some (JNum c)),
           (''description'',
              Some (orElse (propOf mb ''description'') (JStr ''No description available''))),
           (''features'',
              Some (orElse (propOf mb ''features'') (JArr [JStr ''No features available'']))),
           (''habitat'', Some (orElse (propOf mb ''habitat'') (JStr ''Unknown habitat''))),
           (''sound'', Some (orElse (propOf mb ''sound'') (JStr ''Unknown sound''))),
           (''physicalCharacteristics'',
              group (propOf mb ''physicalCharacteristics'')
                [''size'', ''weight'', ''wingspan'', ''plumage'', ''bill'', ''legs'',
                 ''eyeColor'']),
           (''habitatAndRange'',
              group (propOf mb ''habitatAndRange'')
                [''preferredHabitat'', ''geographicRange'', ''rangeMapUrl'']),
           (''migrationPatterns'', migrationPatterns_raw (propOf mb ''migrationPatterns'')),
           (''seasonalVariations'',
              group (propOf mb ''seasonalVariations'')
                [''breedingPlumage'', ''winterPlumage'', ''juvenilePlumage'',
                 ''seasonalBehavior'']),
           (''sounds'',
              group (propOf mb ''sounds'') [''calls'', ''songs'', ''audioUrl''])]))"

text \<open>The callback of \<open>parsedResponse.similarBirds.map\<close>; \<open>bird\<close> may be \<open>null\<close>.\<close>

definition similarBird_raw :: "host \<Rightarrow> json \<Rightarrow> error + json" where
  "similarBird_raw h bird =
     bindE (getProp (Some bird) ''name'') (\<lambda>n.
     bindE (getProp (Some bird) ''scientificName'') (\<lambda>s.
     bindE (getProp (Some bird) ''confidence'') (\<lambda>c.
     bindE (clampConfidence h c) (\<lambda>x.
       Inr (obj [(''name'', Some (orElse n (JStr ''Unknown Similar Bird''))),
                 (''scientificName'', Some (orElse s (JStr ''Unknown Species''))),
                 (''confidence'', Some (JNum x))])))))"

definition similarBirds_raw :: "host \<Rightarrow> jsvalue \<Rightarrow> error + json" where
  "similarBirds_raw h v =
     (case v of
        Some (JArr birds) \<Rightarrow> bindE (mapE (similarBird_raw h) birds) (\<lambda>bs. Inr (JArr bs))
      | _ \<Rightarrow> Inr (JArr []))"

definition startsWith :: "string \<Rightarrow> string \<Rightarrow> bool" where
  "startsWith s p = (take (length p) s = p)"

definition mimeType_of :: "string \<Rightarrow> string" where
  "mimeType_of base64Image =
     (if startsWith base64Image ''/9j/'' then ''image/jpeg''
      else if startsWith base64Image ''iVBORw0KGgo'' then ''image/png''
      else if startsWith base64Image ''R0lGODlh'' then ''image/gif''
      else if startsWith base64Image ''UklGR'' then ''image/webp''
      else ''image/jpeg'')"

definition originalImage_raw :: "string option \<Rightarrow> string" where
  "originalImage_raw base64Image =
     (case base64Image of
        None \<Rightarrow> []
      | Some b \<Rightarrow> if b \<noteq> [] then ''data:'' @ mimeType_of b @ '';base64,'' @ b else [])"

subsection \<open>The result type and its schema (shared/schema.ts)\<close>

text \<open>
  The interfaces of shared/schema.ts; an optional field is an \<open>option\<close>. The field
  \<open>size\<close> is \<open>bird_size\<close> here, and the fields of \<open>SimilarBird\<close> carry the
  prefix \<open>similar_\<close>.
\<close>

record PhysicalCharacteristics =
  bird_size :: "string option"
  weight :: "string option"
  wingspan :: "string option"
  plumage :: "string option"
  bill :: "string option"
  legs :: "string option"
  eyeColor :: "string option"

record HabitatAndRange =
  preferredHabitat :: "string option"
  geographicRange :: "string option"
  rangeMapUrl :: "string option"

record MigrationPatterns =
  migratory :: "bool option"
  migrationSeason :: "string option"
  migrationRoute :: "string option"
  winteringGrounds :: "string option"
  breedingGrounds :: "string option"

record SeasonalVariations =
  breedingPlumage :: "string option"
  winterPlumage :: "string option"
  juvenilePlumage :: "string option"
  seasonalBehavior :: "string option"

record BirdSounds =
  calls :: "string option"
  songs :: "string option"
  audioUrl :: "string option"

record Bird =
  name :: "string"
  scientificName :: "string"
  confidence :: "jsnumber"
  description :: "string"
  features :: "string list"
  habitat :: "string option"
  sound :: "string option"
  imageUrl :: "string option"
  physicalCharacteristics :: "PhysicalCharacteristics option"
  habitatAndRange :: "HabitatAndRange option"
  migrationPatterns :: "MigrationPatterns option"
  seasonalVariations :: "SeasonalVariations option"
  sounds :: "BirdSounds option"

record SimilarBird =
  similar_name :: "string"
  similar_scientificName :: "string"
  similar_confidence :: "jsnumber"
  similar_imageUrl :: "string option"

record IdentificationResult =
  mainBird :: "Bird"
  similarBirds :: "SimilarBird list option"
  originalImage :: "string"

text \<open>
  The zod schemas, as parsers: \<open>z.string()\<close> and \<open>z.boolean()\<close> accept a value of
  that type, \<open>z.number()\<close> a number other than \<open>NaN\<close>, \<open>z.array(s)\<close> an array
  whose elements \<open>s\<close> accepts, \<open>z.object\<close> an object (not an array, not
  \<open>null\<close>), dropping the keys it does not name; \<open>.optional()\<close> also accepts
  \<open>undefined\<close>. A value that is refused makes \<open>parse\<close> throw a \<open>ZodError\<close>.
\<close>

definition z_string :: "json \<Rightarrow> error + string" where
  "z_string j = (case j of JStr s \<Rightarrow> Inr s | _ \<Rightarrow> Inl ZodError)"

definition z_boolean :: "json \<Rightarrow> error + bool" where
  "z_boolean j = (case j of JBool b \<Rightarrow> Inr b | _ \<Rightarrow> Inl ZodError)"

definition z_number :: "json \<Rightarrow> error + jsnumber" where
  "z_number j =
     (case j of JNum x \<Rightarrow> if x = NaN then Inl ZodError else Inr x | _ \<Rightarrow> Inl ZodError)"

definition z_array :: "(json \<Rightarrow> error + 'a) \<Rightarrow> json \<Rightarrow> error + 'a list" where
  "z_array s j = (case j of JArr xs \<Rightarrow> mapE s xs | _ \<Rightarrow> Inl ZodError)"

definition z_required :: "(json \<Rightarrow> error + 'a) \<Rightarrow> jsvalue \<Rightarrow> error + 'a" where
  "z_required s v = (case v of None \<Rightarrow> Inl ZodError | Some j \<Rightarrow> s j)"

definition z_optional :: "(json \<Rightarrow> error + 'a) \<Rightarrow> jsvalue \<Rightarrow> error + 'a option" where
  "z_optional s v = (case v of None \<Rightarrow> Inr None | Some j \<Rightarrow> bindE (s j) (\<lambda>x. Inr (Some x)))"

definition physicalCharacteristicsSchema_object :: "json \<Rightarrow> error + PhysicalCharacteristics" where
  "physicalCharacteristicsSchema_object j =
     (case j of
        JObj ps \<Rightarrow>
          bindE (z_optional z_string (propOf j ''size'')) (\<lambda>x0.
          bindE (z_optional z_string (propOf j ''weight'')) (\<lambda>x1.
          bindE (z_optional z_string (propOf j ''wingspan'')) (\<lambda>x2.
          bindE (z_optional z_string (propOf j ''plumage'')) (\<lambda>x3.
          bindE (z_optional z_string (propOf j ''bill'')) (\<lambda>x4.
          bindE (z_optional z_string (propOf j ''legs'')) (\<lambda>x5.
          bindE (z_optional z_string (propOf j ''eyeColor'')) (\<lambda>x6.
            Inr \<lparr>bird_size = x0, weight = x1, wingspan = x2, plumage = x3, bill = x4, legs = x5, eyeColor = x6\<rparr>)))))))
      | _ \<Rightarrow> Inl ZodError)"

definition physicalCharacteristicsSchema :: "jsvalue \<Rightarrow> error + PhysicalCharacteristics option" where
  "physicalCharacteristicsSchema = z_optional physicalCharacteristicsSchema_object"

definition habitatAndRangeSchema_object :: "json \<Rightarrow> error + HabitatAndRange" where
  "habitatAndRangeSchema_object j =
     (case j of
        JObj ps \<Rightarrow>
          bindE (z_optional z_string (propOf j ''preferredHabitat'')) (\<lambda>x0.
          bindE (z_optional z_string (propOf j ''geographicRange'')) (\<lambda>x1.
          bindE (z_optional z_string (propOf j ''rangeMapUrl'')) (\<lambda>x2.
            Inr \<lparr>preferredHabitat = x0, geographicRange = x1, rangeMapUrl = x2\<rparr>)))
      | _ \<Rightarrow> Inl ZodError)"

definition habitatAndRangeSchema :: "jsvalue \<Rightarrow> error + HabitatAndRange option" where
  "habitatAndRangeSchema = z_optional habitatAndRangeSchema_object"

definition migrationPatternsSchema_object :: "json \<Rightarrow> error + MigrationPatterns" where
  "migrationPatternsSchema_object j =
     (case j of
        JObj ps \<Rightarrow>
          bindE (z_optional z_boolean (propOf j ''migratory'')) (\<lambda>x0.
          bindE (z_optional z_string (propOf j ''migrationSeason'')) (\<lambda>x1.
          bindE (z_optional z_string (propOf j ''migrationRoute'')) (\<lambda>x2.
          bindE (z_optional z_string (propOf j ''winteringGrounds'')) (\<lambda>x3.
          bindE (z_optional z_string (propOf j ''breedingGrounds'')) (\<lambda>x4.
            Inr \<lparr>migratory = x0, migrationSeason = x1, migrationRoute = x2, winteringGrounds = x3, breedingGrounds = x4\<rparr>)))))
      | _ \<Rightarrow> Inl ZodError)"

definition migrationPatternsSchema :: "jsvalue \<Rightarrow> error + MigrationPatterns option" where
  "migrationPatternsSchema = z_optional migrationPatternsSchema_object"

definition seasonalVariationsSchema_object :: "json \<Rightarrow> error + SeasonalVariations" where
  "seasonalVariationsSchema_object j =
     (case j of
        JObj ps \<Rightarrow>
          bindE (z_optional z_string (propOf j ''breedingPlumage'')) (\<lambda>x0.
          bindE (z_optional z_string (propOf j ''winterPlumage'')) (\<lambda>x1.
          bindE (z_optional z_string (propOf j ''juvenilePlumage'')) (\<lambda>x2.
          bindE (z_optional z_string (propOf j ''seasonalBehavior'')) (\<lambda>x3.
            Inr \<lparr>breedingPlumage = x0, winterPlumage = x1, juvenilePlumage = x2, seasonalBehavior = x3\<rparr>))))
      | _ \<Rightarrow> Inl ZodError)"

definition seasonalVariationsSchema :: "jsvalue \<Rightarrow> error + SeasonalVariations option" where
  "seasonalVariationsSchema = z_optional seasonalVariationsSchema_object"

definition birdSoundsSchema_object :: "json \<Rightarrow> error + BirdSounds" where
  "birdSoundsSchema_object j =
     (case j of
        JObj ps \<Rightarrow>
          bindE (z_optional z_string (propOf j ''calls'')) (\<lambda>x0.
          bindE (z_optional z_string (propOf j ''songs'')) (\<lambda>x1.
          bindE (z_optional z_string (propOf j ''audioUrl'')) (\<lambda>x2.
            Inr \<lparr>calls = x0, songs = x1, audioUrl = x2\<rparr>)))
      | _ \<Rightarrow> Inl ZodError)"

definition birdSoundsSchema :: "jsvalue \<Rightarrow> error + BirdSounds option" where
  "birdSoundsSchema = z_optional birdSoundsSchema_object"

definition birdSchema :: "json \<Rightarrow> error + Bird" where
  "birdSchema j =
     (case j of
        JObj ps \<Rightarrow>
          bindE (z_required z_string (propOf j ''name'')) (\<lambda>x0.
          bindE (z_required z_string (propOf j ''scientificName'')) (\<lambda>x1.
          bindE (z_required z_number (propOf j ''confidence'')) (\<lambda>x2.
          bindE (z_required z_string (propOf j ''description'')) (\<lambda>x3.
          bindE (z_required (z_array z_string) (propOf j ''features'')) (\<lambda>x4.
          bindE (z_optional z_string (propOf j ''habitat'')) (\<lambda>x5.
          bindE (z_optional z_string (propOf j ''sound'')) (\<lambda>x6.
          bindE (z_optional z_string (propOf j ''imageUrl'')) (\<lambda>x7.
          bindE (physicalCharacteristicsSchema (propOf j ''physicalCharacteristics'')) (\<lambda>x8.
          bindE (habitatAndRangeSchema (propOf j ''habitatAndRange'')) (\<lambda>x9.
          bindE (migrationPatternsSchema (propOf j ''migrationPatterns'')) (\<lambda>x10.
          bindE (seasonalVariationsSchema (propOf j ''seasonalVariations'')) (\<lambda>x11.
          bindE (birdSoundsSchema (propOf j ''sounds'')) (\<lambda>x12.
            Inr \<lparr>name = x0, scientificName = x1, confidence = x2, description = x3,
                 features = x4, habitat = x5, sound = x6, imageUrl = x7,
                 physicalCharacteristics = x8, habitatAndRange = x9,
                 migrationPatterns = x10, seasonalVariations = x11, sounds = x12\<rparr>)))))))))))))
      | _ \<Rightarrow> Inl ZodError)"

definition similarBirdSchema :: "json \<Rightarrow> error + SimilarBird" where
  "similarBirdSchema j =
     (case j of
        JObj ps \<Rightarrow>
          bindE (z_required z_string (propOf j ''name'')) (\<lambda>x0.
          bindE (z_required z_string (propOf j ''scientificName'')) (\<lambda>x1.
          bindE (z_required z_number (propOf j ''confidence'')) (\<lambda>x2.
          bindE (z_optional z_string (propOf j ''imageUrl'')) (\<lambda>x3.
            Inr \<lparr>similar_name = x0, similar_scientificName = x1, similar_confidence = x2,
                 similar_imageUrl = x3\<rparr>))))
      | _ \<Rightarrow> Inl ZodError)"

definition identificationResultSchema :: "json \<Rightarrow> error + IdentificationResult" where
  "identificationResultSchema j =
     (case j of
        JObj ps \<Rightarrow>
          bindE (z_required birdSchema (propOf j ''mainBird'')) (\<lambda>x0.
          bindE (z_optional (z_array similarBirdSchema) (propOf j ''similarBirds'')) (\<lambda>x1.
          bindE (z_required z_string (propOf j ''originalImage'')) (\<lambda>x2.
            Inr \<lparr>mainBird = x0, similarBirds = x1, originalImage = x2\<rparr>)))
      | _ \<Rightarrow> Inl ZodError)"

subsection \<open>The function\<close>

definition ToString :: "host \<Rightarrow> json \<Rightarrow> error + string" where
  "ToString h j = (case j of JStr s \<Rightarrow> Inr s | _ \<Rightarrow> ToString_host h j)"

text \<open>\<open>new Error(parsedResponse.message || "Failed to identify bird in image")\<close>.\<close>

definition identificationError :: "host \<Rightarrow> jsvalue \<Rightarrow> error" where
  "identificationError h m =
     (case ToString h (orElse m (JStr ''Failed to identify bird in image'')) of
        Inl e \<Rightarrow> e
      | Inr s \<Rightarrow> Error s)"

definition invalidStructure :: error where
  "invalidStructure = Error ''The API response did not contain valid bird identification data''"

text \<open>The object literal \<open>validatedResult\<close>, before the schema sees it.\<close>

definition validatedResult :: "host \<Rightarrow> string option \<Rightarrow> json \<Rightarrow> json \<Rightarrow> error + json" where
  "validatedResult h base64Image parsedResponse mb =
     bindE (mainBird_raw h mb) (\<lambda>b.
     bindE (getProp (Some parsedResponse) ''similarBirds'') (\<lambda>sb.
     bindE (similarBirds_raw h sb) (\<lambda>sbs.
       Inr (obj [(''mainBird'', Some b),
                 (''similarBirds'', Some sbs),
                 (''originalImage'', Some (JStr (originalImage_raw base64Image)))]))))"

text \<open>
  The body of the inner \<open>try\<close>, from \<open>parsedResponse\<close> on: the error flag, the
  check of \<open>mainBird\<close> and its \<open>name\<close>, the assembly, the schema.
\<close>

definition identifyBirdWithGemini_try ::
  "host \<Rightarrow> string option \<Rightarrow> json \<Rightarrow> error + IdentificationResult" where
  "identifyBirdWithGemini_try h base64Image parsedResponse =
     bindE (getProp (Some parsedResponse) ''error'') (\<lambda>err.
       if truthyv err then
         bindE (getProp (Some parsedResponse) ''message'') (\<lambda>m. Inl (identificationError h m))
       else
         bindE (getProp (Some parsedResponse) ''mainBird'') (\<lambda>mainBird_v.
           case mainBird_v of
             None \<Rightarrow> Inl invalidStructure
           | Some mb \<Rightarrow>
               if \<not> truthy mb \<or> \<not> truthyv (propOf mb ''name'') then Inl invalidStructure
               else bindE (validatedResult h base64Image parsedResponse mb)
                      identificationResultSchema))"

text \<open>
  The inner \<open>catch (jsonError)\<close> encloses all of the above: whatever was thrown, it
  throws \<open>new Error("Failed to parse identification result from Gemini API")\<close>. The
  outer \<open>catch\<close> rethrows what it caught.
\<close>

definition parseFailure :: error where
  "parseFailure = Error ''Failed to parse identification result from Gemini API''"

definition identifyBirdWithGemini ::
  "host \<Rightarrow> string option \<Rightarrow> json \<Rightarrow> error + IdentificationResult" where
  "identifyBirdWithGemini h base64Image parsedResponse =
     (case identifyBirdWithGemini_try h base64Image parsedResponse of
        Inl e \<Rightarrow> Inl parseFailure
      | Inr r \<Rightarrow> Inr r)"

subsection \<open>The confidence rule in the words of the specification\<close>

text \<open>
  Round to the nearest integer, then clamp into the inclusive range from 1 to 100.
\<close>

definition nearestInt :: "rat \<Rightarrow> int" where
  "nearestInt x = \<lfloor>x + 1 / 2\<rfloor>"

definition clampRound :: "rat \<Rightarrow> int" where
  "clampRound x = min (max 1 (nearestInt x)) 100"

subsection \<open>A result as JSON\<close>

text \<open>
  The JSON value of a result, as \<open>JSON.stringify\<close> writes it and \<open>JSON.parse\<close>
  reads it back: an optional field that is \<open>undefined\<close> is left out, and a number
  that is not finite is written \<open>null\<close>.
\<close>

definition optString :: "string option \<Rightarrow> jsvalue" where
  "optString s = map_option JStr s"

definition jsnumber_toJSON :: "jsnumber \<Rightarrow> json" where
  "jsnumber_toJSON x = (case x of Num q \<Rightarrow> JNum (Num q) | _ \<Rightarrow> JNull)"

definition PhysicalCharacteristics_toJSON :: "PhysicalCharacteristics \<Rightarrow> json" where
  "PhysicalCharacteristics_toJSON p =
     obj [(''size'', optString (bird_size p)),
          (''weight'', optString (weight p)),
          (''wingspan'', optString (wingspan p)),
          (''plumage'', optString (plumage p)),
          (''bill'', optString (bill p)),
          (''legs'', optString (legs p)),
          (''eyeColor'', optString (eyeColor p))]"

definition HabitatAndRange_toJSON :: "HabitatAndRange \<Rightarrow> json" where
  "HabitatAndRange_toJSON p =
     obj [(''preferredHabitat'', optString (preferredHabitat p)),
          (''geographicRange'', optString (geographicRange p)),
          (''rangeMapUrl'', optString (rangeMapUrl p))]"

definition MigrationPatterns_toJSON :: "MigrationPatterns \<Rightarrow> json" where
  "MigrationPatterns_toJSON p =
     obj [(''migratory'', map_option JBool (migratory p)),
          (''migrationSeason'', optString (migrationSeason p)),
          (''migrationRoute'', optString (migrationRoute p)),
          (''winteringGrounds'', optString (winteringGrounds p)),
          (''breedingGrounds'', optString (breedingGrounds p))]"

definition SeasonalVariations_toJSON :: "SeasonalVariations \<Rightarrow> json" where
  "SeasonalVariations_toJSON p =
     obj [(''breedingPlumage'', optString (breedingPlumage p)),
          (''winterPlumage'', optString (winterPlumage p)),
          (''juvenilePlumage'', optString (juvenilePlumage p)),
          (''seasonalBehavior'', optString (seasonalBehavior p))]"

definition BirdSounds_toJSON :: "BirdSounds \<Rightarrow> json" where
  "BirdSounds_toJSON p =
     obj [(''calls'', optString (calls p)),
          (''songs'', optString (songs p)),
          (''audioUrl'', optString (audioUrl p))]"

definition Bird_toJSON :: "Bird \<Rightarrow> json" where
  "Bird_toJSON p =
     obj [(''name'', Some (JStr (name p))),
          (''scientificName'', Some (JStr (scientificName p))),
          (''confidence'', Some (jsnumber_toJSON (confidence p))),
          (''description'', Some (JStr (description p))),
          (''features'', Some (JArr (map JStr (features p)))),
          (''habitat'', optString (habitat p)),
          (''sound'', optString (sound p)),
          (''imageUrl'', optString (imageUrl p)),
          (''physicalCharacteristics'', map_option PhysicalCharacteristics_toJSON (physicalCharacteristics p)),
          (''habitatAndRange'', map_option HabitatAndRange_toJSON (habitatAndRange p)),
          (''migrationPatterns'', map_option MigrationPatterns_toJSON (migrationPatterns p)),
          (''seasonalVariations'', map_option SeasonalVariations_toJSON (seasonalVariations p)),
          (''sounds'', map_option BirdSounds_toJSON (sounds p))]"

definition SimilarBird_toJSON :: "SimilarBird \<Rightarrow> json" where
  "SimilarBird_toJSON p =
     obj [(''name'', Some (JStr (similar_name p))),
          (''scientificName'', Some (JStr (similar_scientificName p))),
          (''confidence'', Some (jsnumber_toJSON (similar_confidence p))),
          (''imageUrl'', optString (similar_imageUrl p))]"

definition IdentificationResult_toJSON :: "IdentificationResult \<Rightarrow> json" where
  "IdentificationResult_toJSON p =
     obj [(''mainBird'', Some (Bird_toJSON (mainBird p))),
          (''similarBirds'', map_option (\<lambda>ss. JArr (map SimilarBird_toJSON ss)) (similarBirds p)),
          (''originalImage'', Some (JStr (originalImage p)))]"

section \<open>Example inputs\<close>

text \<open>
  A host whose conversions give \<open>NaN\<close> and \<open>"[object Object]"\<close>, and parsed
  responses: a robin with the confidence 150 and a similar bird with the confidence
  72.5, a robin with the confidence -5, an error reply that also carries a bird, a bird
  without a name, and a robin with an empty list of features.
\<close>

definition host0 :: host where
  "host0 = \<lparr>ToNumber_host = (\<lambda>j. Inr NaN), ToString_host = (\<lambda>j. Inr ''[object Object]'')\<rparr>"

definition robin150 :: json where
  "robin150 =
     JObj [(''mainBird'', JObj [(''name'', JStr ''Robin''), (''confidence'', JNum (Num 150))]),
           (''similarBirds'',
              JArr [JObj [(''name'', JStr ''Wren''), (''confidence'', JNum (Num (145 / 2)))]])]"

definition robinMinus5 :: json where
  "robinMinus5 =
     JObj [(''mainBird'', JObj [(''name'', JStr ''Robin''), (''confidence'', JNum (Num (- 5)))])]"

definition errorReply :: json where
  "errorReply =
     JObj [(''error'', JBool True), (''message'', JStr ''No bird in the image''),
           (''mainBird'', JObj [(''name'', JStr ''Robin''), (''confidence'', JNum (Num 90))])]"

definition namelessBird :: json where
  "namelessBird = JObj [(''mainBird'', JObj [(''confidence'', JNum (Num 90))])]"

definition robinNoFeatures :: json where
  "robinNoFeatures =
     JObj [(''mainBird'', JObj [(''name'', JStr ''Robin''), (''confidence'', JNum (Num 90)),
                                (''features'', JArr [])])]"

section \<open>Example states\<close>

text \<open>
  A host whose calendar day is the UTC day, two users (\<open>ann\<close> on the free plan,
  \<open>bea\<close> on the premium plan, both last active on day 0 with four identifications),
  a storage that holds \<open>ann\<close> only, and a storage where \<open>bea\<close> owns 31 records.
\<close>

definition utcDay :: "timestamp \<Rightarrow> int" where
  "utcDay t = t div 86400000"

definition ann :: User where
  "ann = \<lparr>user_id = 1, username = ''ann'', password = ''secret'', email = None,
          subscriptionPlan = ''free'', subscriptionEndDate = None,
          stripeCustomerId = None, stripeSubscriptionId = None,
          dailyIdentificationsCount = Some 4, lastIdentificationDate = Some 1000\<rparr>"

definition bea :: User where
  "bea = \<lparr>user_id = 2, username = ''bea'', password = ''secret'', email = None,
          subscriptionPlan = ''premium'', subscriptionEndDate = None,
          stripeCustomerId = None, stripeSubscriptionId = None,
          dailyIdentificationsCount = Some 4, lastIdentificationDate = Some 1000\<rparr>"

definition ident :: "int \<Rightarrow> int option \<Rightarrow> unit BirdIdentification" where
  "ident k uid = \<lparr>ident_id = k, userId = uid, ident_imageUrl = ''img'', result = (),
                   identifiedAt = 1000 + k\<rparr>"

definition storage1 :: "unit MemStorage" where
  "storage1 = \<lparr>users = [1 \<mapsto> ann], identifications = [],
               userIdCounter = 2, identificationIdCounter = 1\<rparr>"

definition storage2 :: "unit MemStorage" where
  "storage2 = \<lparr>users = [1 \<mapsto> ann, 2 \<mapsto> bea],
               identifications = map (\<lambda>k. (k, ident k (Some 2))) [1..31],
               userIdCounter = 3, identificationIdCounter = 32\<rparr>"

section \<open>The usage ledger: daily counter\<close>

lemma updateUser_Some:
  "users st i = Some u \<Longrightarrow>
   updateUser st i f = Inr (f u, st\<lparr>users := (users st)(i \<mapsto> f u)\<rparr>)"
  by (simp add: updateUser_def Let_def)

lemma increment_unknown_user:
  "getUser st i = None \<Longrightarrow>
   incrementDailyIdentificationCount tds st now i = Inl (UserNotFound i)"
  by (simp add: incrementDailyIdentificationCount_def)

lemma increment_known_user:
  assumes "getUser st i = Some u"
  shows "incrementDailyIdentificationCount tds st now i =
           Inr (if isNewDay tds now u then 1 else countOrZero u + 1,
                st\<lparr>users := (users st)(i \<mapsto>
                   u\<lparr>dailyIdentificationsCount :=
                        Some (if isNewDay tds now u then 1 else countOrZero u + 1),
                     lastIdentificationDate := Some now\<rparr>)\<rparr>)"
  using assms
  by (simp add: incrementDailyIdentificationCount_def getUser_def updateUser_Some Let_def)

lemma check_new_day:
  assumes "getUser st i = Some u" and "isNewDay tds now u"
  shows "checkDailyIdentificationLimit tds st now i =
           Inr (\<lparr>withinLimit = True, current = 0, limit = 5\<rparr>,
                st\<lparr>users := (users st)(i \<mapsto>
                   u\<lparr>dailyIdentificationsCount := Some 0,
                     lastIdentificationDate := Some now\<rparr>)\<rparr>)"
  using assms
  by (simp add: checkDailyIdentificationLimit_def resetDailyIdentificationCount_def
      getUser_def updateUser_Some)

text \<open>
  Claim C1. When the stored last-identification date of an existing user is \<open>null\<close>
  or lies on another calendar day than \<open>now\<close>, the prior count plays no part in the
  next call: \<open>checkDailyIdentificationLimit\<close> reports the count 0 within the limit and
  leaves the stored counter at 0, and \<open>incrementDailyIdentificationCount\<close> returns 1
  and leaves the stored counter at 1; both stamp the last-identification date with
  \<open>now\<close>.
\<close>

theorem new_day_counts_from_zero:
  assumes "getUser st i = Some u" and "isNewDay tds now u"
  shows "(\<exists>r. checkDailyIdentificationLimit tds st now i =
             Inr (r, st\<lparr>users := (users st)(i \<mapsto>
                    u\<lparr>dailyIdentificationsCount := Some 0,
                      lastIdentificationDate := Some now\<rparr>)\<rparr>)
            \<and> current r = 0 \<and> withinLimit r)
       \<and> incrementDailyIdentificationCount tds st now i =
           Inr (1, st\<lparr>users := (users st)(i \<mapsto>
                   u\<lparr>dailyIdentificationsCount := Some 1,
                     lastIdentificationDate := Some now\<rparr>)\<rparr>)"
  using assms check_new_day[OF assms] increment_known_user[OF assms(1), of tds now]
  by simp

theorem new_day_counts_from_zero_witness:
  "getUser storage1 1 = Some ann \<and> isNewDay utcDay 86400000 ann
   \<and> (\<exists>r. checkDailyIdentificationLimit utcDay storage1 86400000 1 =
             Inr (r, storage1\<lparr>users := (users storage1)(1 \<mapsto>
                    ann\<lparr>dailyIdentificationsCount := Some 0,
                        lastIdentificationDate := Some 86400000\<rparr>)\<rparr>)
            \<and> current r = 0 \<and> withinLimit r)
   \<and> incrementDailyIdentificationCount utcDay storage1 86400000 1 =
        Inr (1, storage1\<lparr>users := (users storage1)(1 \<mapsto>
                 ann\<lparr>dailyIdentificationsCount := Some 1,
                     lastIdentificationDate := Some 86400000\<rparr>)\<rparr>)"
proof -
  have h1: "getUser storage1 1 = Some ann" by (simp add: getUser_def storage1_def)
  have h2: "isNewDay utcDay 86400000 ann" by (simp add: isNewDay_def ann_def utcDay_def)
  show ?thesis using h1 h2 new_day_counts_from_zero[OF h1 h2] by blast
qed

lemma incrementCalls_same_day:
  assumes "getUser st i = Some u" and "lastIdentificationDate u = Some t0" and "tds t0 = d"
    and "\<forall>t\<in>set nows. tds t = d"
  shows "\<exists>st' u'. incrementCalls tds st i nows =
            Inr (map (\<lambda>k. countOrZero u + int k) [1..<Suc (length nows)], st')
          \<and> getUser st' i = Some u'
          \<and> countOrZero u' = countOrZero u + int (length nows)"
  using assms
proof (induction nows arbitrary: st u t0)
  case Nil
  then show ?case by simp
next
  case (Cons now nows)
  let ?u1 = "u\<lparr>dailyIdentificationsCount := Some (countOrZero u + 1),
               lastIdentificationDate := Some now\<rparr>"
  let ?st1 = "st\<lparr>users := (users st)(i \<mapsto> ?u1)\<rparr>"
  have nd: "\<not> isNewDay tds now u" using Cons.prems by (simp add: isNewDay_def)
  have step: "incrementDailyIdentificationCount tds st now i = Inr (countOrZero u + 1, ?st1)"
    using increment_known_user[OF Cons.prems(1), of tds now] nd by simp
  have g: "getUser ?st1 i = Some ?u1" by (simp add: getUser_def)
  have c1: "countOrZero ?u1 = countOrZero u + 1" by (simp add: countOrZero_def)
  from Cons.IH[OF g, of now] Cons.prems
  obtain st' u' where r:
    "incrementCalls tds ?st1 i nows =
       Inr (map (\<lambda>k. countOrZero ?u1 + int k) [1..<Suc (length nows)], st')"
    "getUser st' i = Some u'"
    "countOrZero u' = countOrZero ?u1 + int (length nows)"
    by auto
  have m: "map (\<lambda>k. countOrZero u + int k) [1..<Suc (length (now # nows))]
         = (countOrZero u + 1) # map (\<lambda>k. countOrZero ?u1 + int k) [1..<Suc (length nows)]"
    unfolding c1 by (simp add: upt_conv_Cons map_Suc_upt[symmetric] del: upt_Suc)
  show ?case unfolding m using step r c1 by simp
qed

text \<open>
  Claim C2. For an existing user whose last-identification date is \<open>null\<close> or not on
  day \<open>d\<close>, \<open>N \<ge> 1\<close> calls of \<open>incrementDailyIdentificationCount\<close> at instants of
  day \<open>d\<close> return 1, 2, ..., N in this order and leave the stored count at N.
\<close>

theorem same_day_increments_count_up:
  assumes "getUser st i = Some u" and "nows \<noteq> []" and "\<forall>t\<in>set nows. tds t = d"
    and "case lastIdentificationDate u of None \<Rightarrow> True | Some t0 \<Rightarrow> tds t0 \<noteq> d"
  shows "\<exists>st' u'. incrementCalls tds st i nows = Inr (map int [1..<Suc (length nows)], st')
          \<and> getUser st' i = Some u'
          \<and> dailyIdentificationsCount u' = Some (int (length nows))"
proof -
  obtain now rest where nows: "nows = now # rest" using assms(2) by (cases nows) auto
  let ?u1 = "u\<lparr>dailyIdentificationsCount := Some 1, lastIdentificationDate := Some now\<rparr>"
  let ?st1 = "st\<lparr>users := (users st)(i \<mapsto> ?u1)\<rparr>"
  have nd: "isNewDay tds now u"
    using assms(3,4) nows by (simp add: isNewDay_def split: option.splits)
  have step: "incrementDailyIdentificationCount tds st now i = Inr (1, ?st1)"
    using increment_known_user[OF assms(1), of tds now] nd by simp
  have g: "getUser ?st1 i = Some ?u1" by (simp add: getUser_def)
  have c1: "countOrZero ?u1 = 1" by (simp add: countOrZero_def)
  have "\<forall>t\<in>set rest. tds t = d" "tds now = d" using assms(3) nows by auto
  from incrementCalls_same_day[OF g _ this(2) this(1)]
  obtain st' u' where r:
    "incrementCalls tds ?st1 i rest = Inr (map (\<lambda>k. 1 + int k) [1..<Suc (length rest)], st')"
    "getUser st' i = Some u'"
    "countOrZero u' = 1 + int (length rest)"
    unfolding c1 by auto
  have m: "map int [1..<Suc (length nows)] = 1 # map (\<lambda>k. 1 + int k) [1..<Suc (length rest)]"
    unfolding nows by (simp add: upt_conv_Cons map_Suc_upt[symmetric] del: upt_Suc)
  have cnt: "dailyIdentificationsCount u' = Some (int (length nows))"
    using r(3) nows by (simp add: countOrZero_def split: option.splits)
  show ?thesis unfolding m using step r cnt nows by simp
qed

theorem same_day_increments_count_up_witness:
  "getUser storage1 1 = Some ann \<and> [86400000, 86400001, 86500000] \<noteq> []
   \<and> utcDay 86400000 = 1 \<and> utcDay 86400001 = 1 \<and> utcDay 86500000 = 1
   \<and> lastIdentificationDate ann = Some 1000 \<and> utcDay 1000 \<noteq> 1
   \<and> (\<exists>st' u'. incrementCalls utcDay storage1 1 [86400000, 86400001, 86500000]
                    = Inr ([1, 2, 3], st')
          \<and> getUser st' 1 = Some u'
          \<and> dailyIdentificationsCount u' = Some 3)"
proof -
  have h1: "getUser storage1 1 = Some ann" by (simp add: getUser_def storage1_def)
  have h2: "[86400000, 86400001, 86500000 :: int] \<noteq> []" by simp
  have d: "utcDay 86400000 = 1" "utcDay 86400001 = 1" "utcDay 86500000 = 1"
    "lastIdentificationDate ann = Some 1000" "utcDay 1000 \<noteq> 1"
    by (simp_all add: utcDay_def ann_def)
  have h3: "\<forall>t\<in>set [86400000, 86400001, 86500000]. utcDay t = 1" using d by simp
  have h4: "case lastIdentificationDate ann of None \<Rightarrow> True | Some t0 \<Rightarrow> utcDay t0 \<noteq> 1"
    using d by simp
  have e: "map int [1..<Suc (length [86400000, 86400001, 86500000 :: int])] = [1, 2, 3]"
    by (simp add: upt_conv_Cons)
  show ?thesis
    using h1 h2 d same_day_increments_count_up[OF h1 h2 h3 h4] unfolding e by simp
qed

text \<open>
  Claim C3, evaluated on the code. \<open>bea\<close> is on the premium plan. A check on the day
  after her last identification takes the rollover path and reports the limit 5; the
  check that follows on the same day takes the other path and reports the limit -1.
\<close>

theorem rollover_limit_ignores_plan:
  "getUser storage2 2 = Some bea \<and> subscriptionPlan bea = ''premium''
   \<and> (\<exists>r st'. checkDailyIdentificationLimit utcDay storage2 86400000 2 = Inr (r, st')
         \<and> limit r = 5
         \<and> (\<exists>r' st''. checkDailyIdentificationLimit utcDay st' 86400001 2 = Inr (r', st'')
               \<and> limit r' = - 1))"
  by (simp add: checkDailyIdentificationLimit_def resetDailyIdentificationCount_def
      updateUser_def getUser_def storage2_def bea_def isNewDay_def utcDay_def Let_def
      countOrZero_def)

section \<open>The usage ledger: history and creation\<close>

lemma recent_premium:
  assumes "getUser st uid = Some u" and "subscriptionPlan u = ''premium''"
  shows "getRecentIdentifications st (Some uid) limit_arg =
           slice0 (sort_key (\<lambda>r. - identifiedAt r)
                     (filter (\<lambda>r. userId r = Some uid) (map snd (identifications st))))
                  (min (case limit_arg of None \<Rightarrow> 10 | Some l \<Rightarrow> l) 30)"
  using assms by (simp add: getRecentIdentifications_def Let_def)

lemma storage2_count:
  "length (filter (\<lambda>r. userId r = Some 2) (map snd (identifications storage2))) = 31"
  by (simp add: storage2_def ident_def o_def)

text \<open>
  Claim C7 as stated fails: \<open>bea\<close> is on the premium plan and owns 31 records; asked
  for up to 100 of them, the query returns 30.
\<close>

theorem premium_history_truncated:
  "getUser storage2 2 = Some bea \<and> subscriptionPlan bea = ''premium''
   \<and> length (filter (\<lambda>r. userId r = Some 2) (map snd (identifications storage2))) = 31
   \<and> length (getRecentIdentifications storage2 (Some 2) (Some 100)) = 30"
proof -
  have h1: "getUser storage2 2 = Some bea" by (simp add: getUser_def storage2_def)
  have h2: "subscriptionPlan bea = ''premium''" by (simp add: bea_def)
  show ?thesis
    using h1 h2 storage2_count by (simp add: recent_premium[OF h1 h2] slice0_def)
qed

text \<open>
  Claim C7, amended. For a premium user the plan-derived history cap is 30: the query
  returns the user's records, newest first, cut at the smaller of the caller's limit
  (10 when none is given) and 30; for a caller's limit that is not negative these are
  at most 30 records. The table of plan limits gives the premium plan the same history
  limit, 30.
\<close>

theorem premium_history_capped_at_30:
  assumes "getUser st uid = Some u" and "subscriptionPlan u = ''premium''"
  shows "getRecentIdentifications st (Some uid) limit_arg =
           slice0 (sort_key (\<lambda>r. - identifiedAt r)
                     (filter (\<lambda>r. userId r = Some uid) (map snd (identifications st))))
                  (min (case limit_arg of None \<Rightarrow> 10 | Some l \<Rightarrow> l) 30)
       \<and> (0 \<le> (case limit_arg of None \<Rightarrow> 10 | Some l \<Rightarrow> l) \<longrightarrow>
            length (getRecentIdentifications st (Some uid) limit_arg) \<le> 30)
       \<and> map_option identifications_history (subscriptionLimitsMap ''premium'')
           = Some (Finite 30)"
  unfolding recent_premium[OF assms]
  by (auto simp: slice0_def subscriptionLimitsMap_def split: option.splits)

theorem premium_history_capped_at_30_witness:
  "getUser storage2 2 = Some bea \<and> subscriptionPlan bea = ''premium''
   \<and> (0::int) \<le> (case Some 100 of None \<Rightarrow> 10 | Some l \<Rightarrow> l)
   \<and> getRecentIdentifications storage2 (Some 2) (Some 100) =
           slice0 (sort_key (\<lambda>r. - identifiedAt r)
                     (filter (\<lambda>r. userId r = Some 2) (map snd (identifications storage2))))
                  (min (case Some 100 of None \<Rightarrow> 10 | Some l \<Rightarrow> l) 30)
   \<and> length (getRecentIdentifications storage2 (Some 2) (Some 100)) \<le> 30
   \<and> map_option identifications_history (subscriptionLimitsMap ''premium'')
       = Some (Finite 30)"
proof -
  have h1: "getUser storage2 2 = Some bea" by (simp add: getUser_def storage2_def)
  have h2: "subscriptionPlan bea = ''premium''" by (simp add: bea_def)
  have h3: "(0::int) \<le> (case Some 100 of None \<Rightarrow> 10 | Some l \<Rightarrow> l)" by simp
  show ?thesis
    using h1 h2 h3 premium_history_capped_at_30[OF h1 h2, of "Some 100"] by blast
qed

text \<open>
  Claim C10 as stated fails at the owner id 0: it is not \<open>null\<close> and no user has it,
  yet nothing is thrown and an anonymous record is stored.
\<close>

theorem createIdentification_zero_owner:
  "getUser storage1 0 = None
   \<and> (\<exists>st'. createIdentification utcDay storage1 86400000
                \<lparr>ins_userId = Some 0, ins_imageUrl = ''img'', ins_result = ()\<rparr>
              = (Inr \<lparr>ident_id = 1, userId = None, ident_imageUrl = ''img'', result = (),
                      identifiedAt = 86400000\<rparr>, st')
          \<and> identifications st' =
               [(1, \<lparr>ident_id = 1, userId = None, ident_imageUrl = ''img'', result = (),
                     identifiedAt = 86400000\<rparr>)]
          \<and> identifications storage1 = [])"
  by (simp add: createIdentification_def Let_def truthy_id_def getUser_def storage1_def)

text \<open>
  Claim C10, amended. With an owner id that is truthy (neither \<open>null\<close> nor 0):
  if the user exists, the record is stored under that owner and the user's daily count
  is incremented (set to 1 on a new day) and stamped; if the user does not exist, the
  call throws the not-found error for that id and neither the identifications nor the
  users change. With the owner id \<open>null\<close> or 0 the record is stored without an owner
  and no user changes.
\<close>

theorem createIdentification_counts_truthy_owner:
  "(ins_userId ins = Some uid \<and> uid \<noteq> 0 \<and> getUser st uid = Some u \<longrightarrow>
      (\<exists>r st'. createIdentification tds st now ins = (Inr r, st')
         \<and> userId r = Some uid
         \<and> identifications st' = map_set (identifications st) (identificationIdCounter st) r
         \<and> getUser st' uid =
             Some (u\<lparr>dailyIdentificationsCount :=
                        Some (if isNewDay tds now u then 1 else countOrZero u + 1),
                      lastIdentificationDate := Some now\<rparr>)))
   \<and> (ins_userId ins = Some uid \<and> uid \<noteq> 0 \<and> getUser st uid = None \<longrightarrow>
      (\<exists>st'. createIdentification tds st now ins = (Inl (UserNotFound uid), st')
         \<and> identifications st' = identifications st \<and> users st' = users st))
   \<and> (ins_userId ins = None \<or> ins_userId ins = Some 0 \<longrightarrow>
      (\<exists>r st'. createIdentification tds st now ins = (Inr r, st')
         \<and> userId r = None
         \<and> identifications st' = map_set (identifications st) (identificationIdCounter st) r
         \<and> users st' = users st))"
proof (intro conjI impI)
  assume a: "ins_userId ins = Some uid \<and> uid \<noteq> 0 \<and> getUser st uid = Some u"
  let ?st1 = "st\<lparr>identificationIdCounter := identificationIdCounter st + 1\<rparr>"
  have g: "getUser ?st1 uid = Some u" using a by (simp add: getUser_def)
  show "\<exists>r st'. createIdentification tds st now ins = (Inr r, st')
         \<and> userId r = Some uid
         \<and> identifications st' = map_set (identifications st) (identificationIdCounter st) r
         \<and> getUser st' uid =
             Some (u\<lparr>dailyIdentificationsCount :=
                        Some (if isNewDay tds now u then 1 else countOrZero u + 1),
                      lastIdentificationDate := Some now\<rparr>)"
    using a by (simp add: createIdentification_def Let_def increment_known_user[OF g]
        truthy_id_def getUser_def)
next
  assume a: "ins_userId ins = Some uid \<and> uid \<noteq> 0 \<and> getUser st uid = None"
  let ?st1 = "st\<lparr>identificationIdCounter := identificationIdCounter st + 1\<rparr>"
  have g: "getUser ?st1 uid = None" using a by (simp add: getUser_def)
  show "\<exists>st'. createIdentification tds st now ins = (Inl (UserNotFound uid), st')
         \<and> identifications st' = identifications st \<and> users st' = users st"
    using a by (simp add: createIdentification_def Let_def increment_unknown_user[OF g])
next
  assume a: "ins_userId ins = None \<or> ins_userId ins = Some 0"
  show "\<exists>r st'. createIdentification tds st now ins = (Inr r, st')
         \<and> userId r = None
         \<and> identifications st' = map_set (identifications st) (identificationIdCounter st) r
         \<and> users st' = users st"
    using a by (auto simp: createIdentification_def Let_def truthy_id_def)
qed

theorem createIdentification_counts_truthy_owner_witness:
  "(ins_userId \<lparr>ins_userId = Some 1, ins_imageUrl = ''img'', ins_result = ()\<rparr> = Some 1
      \<and> (1::int) \<noteq> 0 \<and> getUser storage1 1 = Some ann)
   \<and> (\<exists>r st'. createIdentification utcDay storage1 86400000
                   \<lparr>ins_userId = Some 1, ins_imageUrl = ''img'', ins_result = ()\<rparr> = (Inr r, st')
         \<and> userId r = Some 1
         \<and> identifications st' = [(1, r)]
         \<and> getUser st' 1 = Some (ann\<lparr>dailyIdentificationsCount := Some 1,
                                      lastIdentificationDate := Some 86400000\<rparr>))
   \<and> (ins_userId \<lparr>ins_userId = Some 7, ins_imageUrl = ''img'', ins_result = ()\<rparr> = Some 7
      \<and> (7::int) \<noteq> 0 \<and> getUser storage1 7 = None)
   \<and> (\<exists>st'. createIdentification utcDay storage1 86400000
                 \<lparr>ins_userId = Some 7, ins_imageUrl = ''img'', ins_result = ()\<rparr>
               = (Inl (UserNotFound 7), st')
         \<and> identifications st' = [] \<and> users st' = users storage1)
   \<and> (ins_userId \<lparr>ins_userId = None, ins_imageUrl = ''img'', ins_result = ()\<rparr> = None)
   \<and> (\<exists>r st'. createIdentification utcDay storage1 86400000
                   \<lparr>ins_userId = None, ins_imageUrl = ''img'', ins_result = ()\<rparr> = (Inr r, st')
         \<and> userId r = None
         \<and> identifications st' = [(1, r)]
         \<and> users st' = users storage1)"
proof -
  let ?i1 = "\<lparr>ins_userId = Some 1, ins_imageUrl = ''img'', ins_result = ()\<rparr>"
  let ?i7 = "\<lparr>ins_userId = Some 7, ins_imageUrl = ''img'', ins_result = ()\<rparr>"
  let ?i0 = "\<lparr>ins_userId = None, ins_imageUrl = ''img'', ins_result = ()\<rparr>"
  have s: "identifications storage1 = []" "identificationIdCounter storage1 = 1"
    by (simp_all add: storage1_def)
  have n: "isNewDay utcDay 86400000 ann" by (simp add: isNewDay_def ann_def utcDay_def)
  have a1: "ins_userId ?i1 = Some 1 \<and> (1::int) \<noteq> 0 \<and> getUser storage1 1 = Some ann"
    by (simp add: getUser_def storage1_def)
  have a7: "ins_userId ?i7 = Some 7 \<and> (7::int) \<noteq> 0 \<and> getUser storage1 7 = None"
    by (simp add: getUser_def storage1_def)
  have a0: "ins_userId ?i0 = None" by simp
  have c1: "\<exists>r st'. createIdentification utcDay storage1 86400000 ?i1 = (Inr r, st')
         \<and> userId r = Some 1
         \<and> identifications st' = [(1, r)]
         \<and> getUser st' 1 = Some (ann\<lparr>dailyIdentificationsCount := Some 1,
                                      lastIdentificationDate := Some 86400000\<rparr>)"
    using createIdentification_counts_truthy_owner[of ?i1 1 storage1 ann utcDay 86400000] a1 n s
    by simp
  have c7: "\<exists>st'. createIdentification utcDay storage1 86400000 ?i7 = (Inl (UserNotFound 7), st')
         \<and> identifications st' = [] \<and> users st' = users storage1"
    using createIdentification_counts_truthy_owner[of ?i7 7 storage1 ann utcDay 86400000] a7 s
    by simp
  have c0: "\<exists>r st'. createIdentification utcDay storage1 86400000 ?i0 = (Inr r, st')
         \<and> userId r = None
         \<and> identifications st' = [(1, r)]
         \<and> users st' = users storage1"
    using createIdentification_counts_truthy_owner[of ?i0 0 storage1 ann utcDay 86400000] a0 s
    by simp
  show ?thesis using a1 a7 a0 c1 c7 c0 by blast
qed

section \<open>The normalizer: what is thrown and what is accepted\<close>

lemma bindE_Inl [simp]: "bindE (Inl e) f = Inl e"
  by (simp add: bindE_def)

lemma bindE_Inr [simp]: "bindE (Inr x) f = f x"
  by (simp add: bindE_def)

lemma bindE_eq_Inr: "bindE m f = Inr y \<longleftrightarrow> (\<exists>x. m = Inr x \<and> f x = Inr y)"
  by (cases m) simp_all

lemma getProp_Some: "getProp (Some j) k = (if j = JNull then Inl TypeError else Inr (propOf j k))"
  by (cases j) (simp_all add: getProp_def)

lemma propOf_JNull [simp]: "propOf JNull k = None"
  by simp

lemma truthyv_propOf_not_null: "truthyv (propOf j k) \<Longrightarrow> j \<noteq> JNull"
  by (auto simp: truthyv_def)

lemma try_error_flag:
  assumes "truthyv (propOf pr ''error'')"
  shows "identifyBirdWithGemini_try h img pr = Inl (identificationError h (propOf pr ''message''))"
  using assms truthyv_propOf_not_null[OF assms]
  by (simp add: identifyBirdWithGemini_try_def getProp_Some)

lemma try_accepted:
  assumes "identifyBirdWithGemini_try h img pr = Inr r"
  shows "\<exists>mb b sbs. propOf pr ''mainBird'' = Some mb \<and> truthy mb
           \<and> truthyv (propOf mb ''name'') \<and> \<not> truthyv (propOf pr ''error'')
           \<and> mainBird_raw h mb = Inr b
           \<and> similarBirds_raw h (propOf pr ''similarBirds'') = Inr sbs
           \<and> identificationResultSchema
                (obj [(''mainBird'', Some b), (''similarBirds'', Some sbs),
                      (''originalImage'', Some (JStr (originalImage_raw img)))]) = Inr r"
  using assms
  by (auto simp: identifyBirdWithGemini_try_def getProp_Some validatedResult_def bindE_eq_Inr
      split: if_splits option.splits)

lemma accepted_try:
  "identifyBirdWithGemini h img pr = Inr r \<longleftrightarrow> identifyBirdWithGemini_try h img pr = Inr r"
  by (simp add: identifyBirdWithGemini_def split: sum.splits)

lemma failed_try:
  "identifyBirdWithGemini_try h img pr = Inl e \<Longrightarrow> identifyBirdWithGemini h img pr = Inl parseFailure"
  by (simp add: identifyBirdWithGemini_def)

lemma try_no_mainBird:
  assumes "\<not> truthyv (propOf pr ''error'')" and "pr \<noteq> JNull"
    and "\<not> truthyv (propOf pr ''mainBird'') \<or>
         (\<exists>mb. propOf pr ''mainBird'' = Some mb \<and> \<not> truthyv (propOf mb ''name''))"
  shows "identifyBirdWithGemini_try h img pr = Inl invalidStructure"
  using assms
  by (auto simp: identifyBirdWithGemini_try_def getProp_Some truthyv_def split: option.splits)


lemma propOf_obj_Nil [simp]: "propOf (obj []) k = None"
  by (simp add: obj_def)

lemma map_of_objFields_Cons [simp]:
  "map_of (objFields ((k', v) # kvs)) k =
     (if k' = k \<and> v \<noteq> None then v else map_of (objFields kvs) k)"
  by (cases v) simp_all

lemma propOf_obj_Cons [simp]:
  "propOf (obj ((k', v) # kvs)) k = (if k' = k \<and> v \<noteq> None then v else propOf (obj kvs) k)"
  by (cases v) (simp_all add: obj_def)

lemma z_required_Some [simp]: "z_required s (Some j) = s j"
  by (simp add: z_required_def)

lemma z_required_None [simp]: "z_required s None = Inl ZodError"
  by (simp add: z_required_def)

lemma z_optional_None [simp]: "z_optional s None = Inr None"
  by (simp add: z_optional_def)

lemma z_optional_Some [simp]: "z_optional s (Some j) = bindE (s j) (\<lambda>x. Inr (Some x))"
  by (simp add: z_optional_def)

lemma birdSchema_fields:
  assumes "birdSchema j = Inr m"
  shows "z_required z_string (propOf j ''name'') = Inr (name m)"
    and "z_required z_number (propOf j ''confidence'') = Inr (confidence m)"
    and "z_required (z_array z_string) (propOf j ''features'') = Inr (features m)"
  using assms
  by (auto simp: birdSchema_def bindE_eq_Inr split: json.splits)

lemma similarBirdSchema_fields:
  assumes "similarBirdSchema j = Inr m"
  shows "z_required z_string (propOf j ''name'') = Inr (similar_name m)"
    and "z_required z_number (propOf j ''confidence'') = Inr (similar_confidence m)"
  using assms
  by (auto simp: similarBirdSchema_def bindE_eq_Inr split: json.splits)

lemma identificationResultSchema_obj:
  assumes "identificationResultSchema
             (obj [(''mainBird'', Some b), (''similarBirds'', Some sbs),
                   (''originalImage'', Some (JStr s))]) = Inr r"
  shows "birdSchema b = Inr (mainBird r)"
    and "\<exists>ss. z_array similarBirdSchema sbs = Inr ss \<and> similarBirds r = Some ss"
    and "originalImage r = s"
  using assms
  by (auto simp: identificationResultSchema_def obj_def bindE_eq_Inr z_string_def)

lemma z_number_eq: "z_number (JNum c) = Inr x \<longleftrightarrow> c \<noteq> NaN \<and> x = c"
  by (auto simp: z_number_def)

lemma mainBird_raw_confidence:
  assumes "mainBird_raw h mb = Inr b" and "birdSchema b = Inr m"
  shows "clampConfidence h (propOf mb ''confidence'') = Inr (confidence m)"
    and "confidence m \<noteq> NaN"
    and "z_array z_string (orElse (propOf mb ''features'') (JArr [JStr ''No features available'']))
          = Inr (features m)"
    and "z_string (orElse (propOf mb ''name'') (JStr ''Unknown Bird'')) = Inr (name m)"
  using assms(1) birdSchema_fields[OF assms(2)]
  by (auto simp: mainBird_raw_def obj_def bindE_eq_Inr z_number_eq)



lemmas eval_defs = identifyBirdWithGemini_def identifyBirdWithGemini_try_def getProp_def
  truthyv_def validatedResult_def mainBird_raw_def similarBirds_raw_def similarBird_raw_def
  clampConfidence_def orElse_def ToNumber_def Math_max_def Math_min_def obj_def group_def
  migrationPatterns_raw_def originalImage_raw_def identificationResultSchema_def
  birdSchema_def similarBirdSchema_def z_string_def z_number_def z_array_def
  physicalCharacteristicsSchema_def habitatAndRangeSchema_def migrationPatternsSchema_def
  seasonalVariationsSchema_def birdSoundsSchema_def identificationError_def ToString_def
  invalidStructure_def parseFailure_def

text \<open>
  Claim C5, on the code. When the error flag of the parsed response is truthy, the body
  of the \<open>try\<close> throws the error made from the provided message (or from the default
  message), whatever else the response holds, and no result is produced. The
  \<open>catch\<close> that encloses the body replaces it: what leaves the function is the
  parse failure, and the provided message is not in it.
\<close>

theorem error_flag_message_replaced:
  assumes "truthyv (propOf pr ''error'')"
  shows "identifyBirdWithGemini_try h img pr = Inl (identificationError h (propOf pr ''message''))
       \<and> identifyBirdWithGemini h img pr = Inl parseFailure"
  using try_error_flag[OF assms] failed_try by simp

theorem error_flag_message_replaced_witness:
  "truthyv (propOf errorReply ''error'')
   \<and> identificationError host0 (propOf errorReply ''message'') = Error ''No bird in the image''
   \<and> identifyBirdWithGemini_try host0 None errorReply = Inl (Error ''No bird in the image'')
   \<and> identifyBirdWithGemini host0 None errorReply
       = Inl (Error ''Failed to parse identification result from Gemini API'')"
proof -
  have h: "truthyv (propOf errorReply ''error'')" by (simp add: errorReply_def truthyv_def)
  have m: "identificationError host0 (propOf errorReply ''message'') = Error ''No bird in the image''"
    by (simp add: errorReply_def identificationError_def orElse_def ToString_def)
  show ?thesis
    using h m error_flag_message_replaced[OF h, of host0 None] by (simp add: parseFailure_def)
qed

text \<open>
  Claim C6, on the code. With no error flag, a response without \<open>mainBird\<close>, or
  whose \<open>mainBird\<close> has no \<open>name\<close>, makes the body of the \<open>try\<close> throw the
  invalid-structure error (a \<open>TypeError\<close> when the response is \<open>null\<close>), and no
  result is produced. The enclosing \<open>catch\<close> replaces it as well: what leaves the
  function is the same parse failure as for any other failure.
\<close>

theorem missing_name_error_replaced:
  assumes "\<not> truthyv (propOf pr ''error'')"
    and "propOf pr ''mainBird'' = None
         \<or> (\<exists>mb. propOf pr ''mainBird'' = Some mb \<and> propOf mb ''name'' = None)"
  shows "(pr \<noteq> JNull \<longrightarrow> identifyBirdWithGemini_try h img pr = Inl invalidStructure)
       \<and> identifyBirdWithGemini h img pr = Inl parseFailure"
proof -
  have 1: "identifyBirdWithGemini_try h img pr = Inl invalidStructure" if "pr \<noteq> JNull"
    using try_no_mainBird[OF assms(1) that] assms(2) by (auto simp: truthyv_def)
  have 2: "identifyBirdWithGemini_try h img pr = Inl TypeError" if "pr = JNull"
    using that by (simp add: identifyBirdWithGemini_try_def getProp_def)
  show ?thesis using 1 2 failed_try by (cases "pr = JNull") auto
qed

theorem missing_name_error_replaced_witness:
  "\<not> truthyv (propOf namelessBird ''error'')
   \<and> propOf namelessBird ''mainBird'' = Some (JObj [(''confidence'', JNum (Num 90))])
   \<and> propOf (JObj [(''confidence'', JNum (Num 90))]) ''name'' = None
   \<and> namelessBird \<noteq> JNull
   \<and> identifyBirdWithGemini_try host0 None namelessBird
       = Inl (Error ''The API response did not contain valid bird identification data'')
   \<and> identifyBirdWithGemini host0 None namelessBird
       = Inl (Error ''Failed to parse identification result from Gemini API'')"
proof -
  have h1: "\<not> truthyv (propOf namelessBird ''error'')" by (simp add: namelessBird_def truthyv_def)
  have h2: "propOf namelessBird ''mainBird'' = Some (JObj [(''confidence'', JNum (Num 90))])"
    by (simp add: namelessBird_def)
  have h3: "propOf (JObj [(''confidence'', JNum (Num 90))]) ''name'' = None" by simp
  have h4: "namelessBird \<noteq> JNull" by (simp add: namelessBird_def)
  have h: "propOf namelessBird ''mainBird'' = None
         \<or> (\<exists>mb. propOf namelessBird ''mainBird'' = Some mb \<and> propOf mb ''name'' = None)"
    using h2 h3 by simp
  show ?thesis
    using h1 h2 h3 h4 missing_name_error_replaced[OF h1 h, of host0 None]
    by (simp add: parseFailure_def invalidStructure_def)
qed

section \<open>The normalizer: confidence\<close>

lemma mapE_eq_Inr: "mapE f xs = Inr ys \<longleftrightarrow> list_all2 (\<lambda>x y. f x = Inr y) xs ys"
proof (induction xs arbitrary: ys)
  case Nil
  then show ?case by auto
next
  case (Cons x xs)
  then show ?case by (cases ys) (auto simp: bindE_eq_Inr)
qed

lemma nearestInt_nearest: "\<bar>rat_of_int (nearestInt x) - x\<bar> \<le> 1 / 2"
  unfolding nearestInt_def by linarith

lemma floor_int_add_half: "\<lfloor>rat_of_int n + 1 / 2\<rfloor> = n"
  by linarith

lemma Math_round_int: "Math_round (Num (rat_of_int n)) = Num (rat_of_int n)"
  by (simp add: floor_int_add_half)

lemma Math_round_numeral: "Math_round (Num (numeral k)) = Num (numeral k)"
  using Math_round_int[of "numeral k"] by simp

lemma Math_max_1: "Math_max (Num 1) (Num (rat_of_int n)) = Num (rat_of_int (max 1 n))"
  by (simp add: Math_max_def max_def)

lemma Math_min_100: "Math_min (Num (rat_of_int n)) (Num 100) = Num (rat_of_int (min n 100))"
  by (simp add: Math_min_def min_def)

lemma clampConfidence_number:
  "clampConfidence h (Some (JNum (Num x))) = Inr (Num (rat_of_int (clampRound x)))"
proof -
  have "orElse (Some (JNum (Num x))) (JNum (Num 0)) = JNum (Num x)"
    by (simp add: orElse_def)
  then show ?thesis
    by (simp add: clampConfidence_def ToNumber_def clampRound_def nearestInt_def
        Math_max_1 Math_min_100)
qed

lemma clampConfidence_range:
  assumes "clampConfidence h c = Inr y" and "y \<noteq> NaN"
  shows "\<exists>n. y = Num (rat_of_int n) \<and> 1 \<le> n \<and> n \<le> 100"
proof -
  obtain x where x: "y = Math_min (Math_max (Num 1) (Math_round x)) (Num 100)"
    using assms(1) by (auto simp: clampConfidence_def bindE_eq_Inr)
  show ?thesis
  proof (cases x)
    case (Num q)
    then have "y = Num (rat_of_int (min (max 1 \<lfloor>q + 1 / 2\<rfloor>) 100))"
      using x by (simp add: Math_max_1 Math_min_100)
    then show ?thesis by force
  next
    case PosInf
    then have "y = Num (rat_of_int 100)" using x by (simp add: Math_max_def Math_min_def)
    then show ?thesis by force
  next
    case NegInf
    then have "y = Num (rat_of_int 1)" using x by (simp add: Math_max_def Math_min_def)
    then show ?thesis by force
  next
    case NaN
    then show ?thesis using x assms(2) by (simp add: Math_max_def Math_min_def)
  qed
qed

lemma similarBird_confidence:
  assumes "similarBird_raw h b = Inr raw" and "similarBirdSchema raw = Inr s"
  shows "clampConfidence h (propOf b ''confidence'') = Inr (similar_confidence s)"
    and "similar_confidence s \<noteq> NaN"
  using assms(1) similarBirdSchema_fields[OF assms(2)]
  by (auto simp: similarBird_raw_def obj_def bindE_eq_Inr z_number_eq getProp_Some
      split: if_splits)

lemma similarBirds_confidence:
  assumes "similarBirds_raw h (Some (JArr bs)) = Inr sbs"
    and "z_array similarBirdSchema sbs = Inr ss"
  shows "list_all2 (\<lambda>b s. clampConfidence h (propOf b ''confidence'') = Inr (similar_confidence s)
                          \<and> similar_confidence s \<noteq> NaN) bs ss"
proof -
  obtain raws where r: "sbs = JArr raws" "list_all2 (\<lambda>b raw. similarBird_raw h b = Inr raw) bs raws"
    using assms(1) by (auto simp: similarBirds_raw_def bindE_eq_Inr mapE_eq_Inr)
  have z: "list_all2 (\<lambda>raw s. similarBirdSchema raw = Inr s) raws ss"
    using assms(2) r(1) by (simp add: z_array_def mapE_eq_Inr)
  have len: "length bs = length raws" "length raws = length ss"
    using r(2) z by (auto dest: list_all2_lengthD)
  show ?thesis
  proof (rule list_all2_all_nthI)
    show "length bs = length ss" using len by simp
  next
    fix k assume k: "k < length bs"
    have 1: "similarBird_raw h (bs ! k) = Inr (raws ! k)"
      using list_all2_nthD[OF r(2) k] .
    have 2: "similarBirdSchema (raws ! k) = Inr (ss ! k)"
      using list_all2_nthD[OF z] k len by simp
    show "clampConfidence h (propOf (bs ! k) ''confidence'') = Inr (similar_confidence (ss ! k))
            \<and> similar_confidence (ss ! k) \<noteq> NaN"
      using similarBird_confidence[OF 1 2] by simp
  qed
qed

lemma accepted_shape:
  assumes "identifyBirdWithGemini h img pr = Inr r"
  shows "name (mainBird r) \<noteq> []"
    and "\<exists>n. confidence (mainBird r) = Num (rat_of_int n) \<and> 1 \<le> n \<and> n \<le> 100"
    and "\<exists>ss. similarBirds r = Some ss
           \<and> (\<forall>s\<in>set ss. \<exists>n. similar_confidence s = Num (rat_of_int n) \<and> 1 \<le> n \<and> n \<le> 100)"
proof -
  from assms have t: "identifyBirdWithGemini_try h img pr = Inr r" by (simp add: accepted_try)
  from try_accepted[OF t] obtain mb b sbs where a:
    "propOf pr ''mainBird'' = Some mb"
    "truthyv (propOf mb ''name'')"
    "mainBird_raw h mb = Inr b"
    "similarBirds_raw h (propOf pr ''similarBirds'') = Inr sbs"
    "identificationResultSchema
       (obj [(''mainBird'', Some b), (''similarBirds'', Some sbs),
             (''originalImage'', Some (JStr (originalImage_raw img)))]) = Inr r"
    by blast
  note s = identificationResultSchema_obj[OF a(5)]
  note m = mainBird_raw_confidence[OF a(3) s(1)]
  show "name (mainBird r) \<noteq> []"
    using m(4) a(2) by (auto simp: truthyv_def orElse_def z_string_def split: option.splits json.splits)
  show "\<exists>n. confidence (mainBird r) = Num (rat_of_int n) \<and> 1 \<le> n \<and> n \<le> 100"
    using clampConfidence_range[OF m(1) m(2)] .
  from s(2) obtain ss where ss: "z_array similarBirdSchema sbs = Inr ss" "similarBirds r = Some ss"
    by blast
  have "\<exists>n. similar_confidence s = Num (rat_of_int n) \<and> 1 \<le> n \<and> n \<le> 100" if "s \<in> set ss" for s
  proof (cases "\<exists>bs. propOf pr ''similarBirds'' = Some (JArr bs)")
    case True
    then obtain bs where bs: "propOf pr ''similarBirds'' = Some (JArr bs)" by blast
    have l: "list_all2 (\<lambda>b s. clampConfidence h (propOf b ''confidence'') = Inr (similar_confidence s)
                          \<and> similar_confidence s \<noteq> NaN) bs ss"
      using similarBirds_confidence[OF _ ss(1)] a(4) bs by simp
    from that obtain k where k: "k < length ss" "ss ! k = s" by (auto simp: in_set_conv_nth)
    have "k < length bs" using k(1) list_all2_lengthD[OF l] by simp
    from list_all2_nthD[OF l this] k(2)
    have "clampConfidence h (propOf (bs ! k) ''confidence'') = Inr (similar_confidence s)"
      "similar_confidence s \<noteq> NaN" by simp_all
    then show ?thesis by (rule clampConfidence_range)
  next
    case False
    then have "sbs = JArr []"
      using a(4) by (auto simp: similarBirds_raw_def split: option.splits json.splits)
    then have "ss = []" using ss(1) by (simp add: z_array_def)
    then show ?thesis using that by simp
  qed
  then show "\<exists>ss. similarBirds r = Some ss
           \<and> (\<forall>s\<in>set ss. \<exists>n. similar_confidence s = Num (rat_of_int n) \<and> 1 \<le> n \<and> n \<le> 100)"
    using ss(2) by blast
qed


text \<open>
  Claim C4. For every accepted response the output confidence of the primary bird is
  an integer from 1 to 100; a numeric confidence \<open>x\<close> of the primary bird yields the
  output confidence \<open>clampRound x\<close>, the nearest integer of \<open>x\<close> clamped into
  1..100, and so does the numeric confidence of each similar bird, entry by entry. The
  examples 150 and -5 of the claim give 100 and 1.
\<close>

theorem confidence_rounded_then_clamped:
  assumes "identifyBirdWithGemini h img pr = Inr r"
  shows "(\<exists>n. confidence (mainBird r) = Num (rat_of_int n) \<and> 1 \<le> n \<and> n \<le> 100)
       \<and> (\<forall>mb x. propOf pr ''mainBird'' = Some mb
              \<and> propOf mb ''confidence'' = Some (JNum (Num x))
            \<longrightarrow> confidence (mainBird r) = Num (rat_of_int (clampRound x))
                \<and> \<bar>rat_of_int (nearestInt x) - x\<bar> \<le> 1 / 2)
       \<and> (\<forall>bs. propOf pr ''similarBirds'' = Some (JArr bs)
            \<longrightarrow> (\<exists>ss. similarBirds r = Some ss \<and> length ss = length bs
                   \<and> (\<forall>k x. k < length bs
                          \<and> propOf (bs ! k) ''confidence'' = Some (JNum (Num x))
                        \<longrightarrow> similar_confidence (ss ! k) = Num (rat_of_int (clampRound x)))))"
proof -
  from assms have t: "identifyBirdWithGemini_try h img pr = Inr r" by (simp add: accepted_try)
  from try_accepted[OF t] obtain mb b sbs where a:
    "propOf pr ''mainBird'' = Some mb"
    "mainBird_raw h mb = Inr b"
    "similarBirds_raw h (propOf pr ''similarBirds'') = Inr sbs"
    "identificationResultSchema
       (obj [(''mainBird'', Some b), (''similarBirds'', Some sbs),
             (''originalImage'', Some (JStr (originalImage_raw img)))]) = Inr r"
    by blast
  note s = identificationResultSchema_obj[OF a(4)]
  from s(2) obtain ss where ss: "z_array similarBirdSchema sbs = Inr ss" "similarBirds r = Some ss"
    by blast
  have main: "confidence (mainBird r) = Num (rat_of_int (clampRound x))"
    if "propOf mb ''confidence'' = Some (JNum (Num x))" for x
    using mainBird_raw_confidence(1)[OF a(2) s(1)] that by (simp add: clampConfidence_number)
  have sim: "\<exists>ss. similarBirds r = Some ss \<and> length ss = length bs
                   \<and> (\<forall>k x. k < length bs
                          \<and> propOf (bs ! k) ''confidence'' = Some (JNum (Num x))
                        \<longrightarrow> similar_confidence (ss ! k) = Num (rat_of_int (clampRound x)))"
    if bs: "propOf pr ''similarBirds'' = Some (JArr bs)" for bs
  proof -
    have l: "list_all2 (\<lambda>b s. clampConfidence h (propOf b ''confidence'') = Inr (similar_confidence s)
                          \<and> similar_confidence s \<noteq> NaN) bs ss"
      using similarBirds_confidence[OF _ ss(1)] a(3) bs by simp
    have "similar_confidence (ss ! k) = Num (rat_of_int (clampRound x))"
      if "k < length bs" "propOf (bs ! k) ''confidence'' = Some (JNum (Num x))" for k x
      using list_all2_nthD[OF l that(1)] that(2) by (simp add: clampConfidence_number)
    then show ?thesis using ss(2) list_all2_lengthD[OF l] by auto
  qed
  show ?thesis using a(1) main sim nearestInt_nearest accepted_shape(2)[OF assms] by auto
qed


theorem confidence_rounded_then_clamped_witness:
  "(\<exists>r ss. identifyBirdWithGemini host0 None robin150 = Inr r
       \<and> propOf robin150 ''mainBird''
            = Some (JObj [(''name'', JStr ''Robin''), (''confidence'', JNum (Num 150))])
       \<and> propOf robin150 ''similarBirds''
            = Some (JArr [JObj [(''name'', JStr ''Wren''), (''confidence'', JNum (Num (145 / 2)))]])
       \<and> confidence (mainBird r) = Num 100
       \<and> similarBirds r = Some ss \<and> length ss = 1 \<and> similar_confidence (ss ! 0) = Num 73)
   \<and> (\<exists>r. identifyBirdWithGemini host0 None robinMinus5 = Inr r
       \<and> propOf robinMinus5 ''mainBird''
            = Some (JObj [(''name'', JStr ''Robin''), (''confidence'', JNum (Num (- 5)))])
       \<and> confidence (mainBird r) = Num 1)"
proof -
  let ?mb = "JObj [(''name'', JStr ''Robin''), (''confidence'', JNum (Num 150))]"
  let ?bs = "[JObj [(''name'', JStr ''Wren''), (''confidence'', JNum (Num (145 / 2)))]]"
  let ?mb5 = "JObj [(''name'', JStr ''Robin''), (''confidence'', JNum (Num (- 5)))]"
  obtain r where acc: "identifyBirdWithGemini host0 None robin150 = Inr r"
    by (simp add: eval_defs robin150_def)
  obtain r5 where acc5: "identifyBirdWithGemini host0 None robinMinus5 = Inr r5"
    by (simp add: eval_defs robinMinus5_def)
  have p: "propOf robin150 ''mainBird'' = Some ?mb" "propOf robin150 ''similarBirds'' = Some (JArr ?bs)"
    by (simp_all add: robin150_def)
  have p5: "propOf robinMinus5 ''mainBird'' = Some ?mb5" by (simp add: robinMinus5_def)
  have c: "propOf ?mb ''confidence'' = Some (JNum (Num 150))"
    "propOf (?bs ! 0) ''confidence'' = Some (JNum (Num (145 / 2)))"
    "propOf ?mb5 ''confidence'' = Some (JNum (Num (- 5)))"
    by simp_all
  have v: "clampRound 150 = 100" "clampRound (145 / 2) = 73" "clampRound (- 5) = 1"
    by (simp_all add: clampRound_def nearestInt_def)
  note t = confidence_rounded_then_clamped[OF acc] 
  note t5 = confidence_rounded_then_clamped[OF acc5]
  have m: "confidence (mainBird r) = Num 100" using t p(1) c(1) v(1) by simp
  have m5: "confidence (mainBird r5) = Num 1" using t5 p5 c(3) v(3) by simp
  from t p(2) obtain ss where ss: "similarBirds r = Some ss" "length ss = length ?bs"
    "\<forall>k x. k < length ?bs \<and> propOf (?bs ! k) ''confidence'' = Some (JNum (Num x))
         \<longrightarrow> similar_confidence (ss ! k) = Num (rat_of_int (clampRound x))"
    by blast
  have "similar_confidence (ss ! 0) = Num (rat_of_int (clampRound (145 / 2)))"
    using ss(3) c(2) by simp
  then have s0: "similar_confidence (ss ! 0) = Num 73" using v(2) by simp
  show ?thesis using acc acc5 p p5 m m5 ss(1,2) s0 by auto
qed

section \<open>The normalizer: features\<close>

lemma z_string_list: "list_all2 (\<lambda>j s. z_string j = Inr s) js xs \<longleftrightarrow> js = map JStr xs"
proof (induction js arbitrary: xs)
  case Nil
  then show ?case by auto
next
  case (Cons j js)
  then show ?case by (cases xs; cases j) (auto simp: z_string_def)
qed

lemma z_array_z_string: "z_array z_string j = Inr xs \<longleftrightarrow> j = JArr (map JStr xs)"
  by (cases j) (auto simp: z_array_def mapE_eq_Inr z_string_list)

text \<open>
  Claim C8 as stated fails: a response whose \<open>features\<close> is the empty list is
  accepted, and the empty list is the list of features of the result.
\<close>

theorem empty_features_accepted:
  "identifyBirdWithGemini host0 None robinNoFeatures =
     Inr \<lparr>mainBird =
            \<lparr>name = ''Robin'', scientificName = ''Unknown Species'', confidence = Num 90,
             description = ''No description available'', features = [],
             habitat = Some ''Unknown habitat'', sound = Some ''Unknown sound'',
             imageUrl = None, physicalCharacteristics = None, habitatAndRange = None,
             migrationPatterns = None, seasonalVariations = None, sounds = None\<rparr>,
          similarBirds = Some [], originalImage = []\<rparr>"
  by (simp add: eval_defs robinNoFeatures_def Math_round_numeral del: Math_round.simps)

text \<open>
  Claim C8, amended. For every accepted response the features of the result are the
  literal default, one entry, when the input \<open>features\<close> is absent or falsy, and
  otherwise they are the input list of strings as it is; so they are empty exactly when
  the input \<open>features\<close> is the empty list.
\<close>

theorem features_kept_or_defaulted:
  assumes "identifyBirdWithGemini h img pr = Inr r"
  shows "\<exists>mb. propOf pr ''mainBird'' = Some mb
          \<and> (case propOf mb ''features'' of
                None \<Rightarrow> features (mainBird r) = [''No features available'']
              | Some f \<Rightarrow>
                  if truthy f then f = JArr (map JStr (features (mainBird r)))
                  else features (mainBird r) = [''No features available''])
          \<and> (features (mainBird r) = [] \<longleftrightarrow> propOf mb ''features'' = Some (JArr []))"
proof -
  from assms have t: "identifyBirdWithGemini_try h img pr = Inr r" by (simp add: accepted_try)
  from try_accepted[OF t] obtain mb b sbs where a:
    "propOf pr ''mainBird'' = Some mb"
    "mainBird_raw h mb = Inr b"
    "identificationResultSchema
       (obj [(''mainBird'', Some b), (''similarBirds'', Some sbs),
             (''originalImage'', Some (JStr (originalImage_raw img)))]) = Inr r"
    by blast
  note s = identificationResultSchema_obj[OF a(3)]
  have f: "orElse (propOf mb ''features'') (JArr [JStr ''No features available''])
             = JArr (map JStr (features (mainBird r)))"
    using mainBird_raw_confidence(3)[OF a(2) s(1)] by (simp add: z_array_z_string)
  show ?thesis
    using a(1) f by (auto simp: orElse_def split: option.splits if_splits)
qed

theorem features_kept_or_defaulted_witness:
  "\<exists>r. identifyBirdWithGemini host0 None robin150 = Inr r
      \<and> propOf robin150 ''mainBird''
           = Some (JObj [(''name'', JStr ''Robin''), (''confidence'', JNum (Num 150))])
      \<and> propOf (JObj [(''name'', JStr ''Robin''), (''confidence'', JNum (Num 150))]) ''features''
           = None
      \<and> features (mainBird r) = [''No features available'']"
proof -
  obtain r where acc: "identifyBirdWithGemini host0 None robin150 = Inr r"
    by (simp add: eval_defs robin150_def)
  have p: "propOf robin150 ''mainBird''
             = Some (JObj [(''name'', JStr ''Robin''), (''confidence'', JNum (Num 150))])"
    by (simp add: robin150_def)
  have f: "propOf (JObj [(''name'', JStr ''Robin''), (''confidence'', JNum (Num 150))])
             ''features'' = None"
    by simp
  have "features (mainBird r) = [''No features available'']"
    using features_kept_or_defaulted[OF acc] p f by auto
  then show ?thesis using acc p f by blast
qed

section \<open>The normalizer: a result normalized again\<close>

lemma if_not_None [simp]: "(if v \<noteq> None then v else None) = v"
  by simp

lemma case_json_obj [simp]: "case_json a b c d e f (obj kvs) = f (objFields kvs)"
  by (simp add: obj_def)

lemma map_of_objFields_distinct:
  "distinct (map fst kvs) \<Longrightarrow>
   map_of (objFields kvs) k = (case map_of kvs k of None \<Rightarrow> None | Some v \<Rightarrow> v)"
proof (induction kvs rule: objFields.induct)
  case 1
  then show ?case by simp
next
  case (2 k' kvs)
  then have "map_of kvs k' = None" by (simp add: map_of_eq_None_iff)
  with 2 show ?case by auto
next
  case (3 k' j kvs)
  then show ?case by auto
qed

lemma propOf_obj_distinct:
  "distinct (map fst kvs) \<Longrightarrow>
   propOf (obj kvs) k = (case map_of kvs k of None \<Rightarrow> None | Some v \<Rightarrow> v)"
  by (simp add: obj_def map_of_objFields_distinct del: map_of_objFields_Cons)

lemma propOf_pick:
  "propOf (pick j ks) k = (if k \<in> set ks then propOf j k else None)"
  unfolding pick_def by (induction ks) auto

lemma case_json_pick [simp]:
  "case_json a b c d e f (pick j ks) = f (objFields (map (\<lambda>k. (k, propOf j k)) ks))"
  by (simp add: pick_def)

lemma orElse_JStr: "orElse (Some (JStr s)) (JStr d) = JStr (if s = [] then d else s)"
  by (simp add: orElse_def)

lemma orElse_optString:
  "orElse (optString x) (JStr d) = JStr (case x of None \<Rightarrow> d | Some s \<Rightarrow> if s = [] then d else s)"
  by (cases x) (simp_all add: orElse_def optString_def)

lemma z_optional_optString: "z_optional z_string (optString x) = Inr x"
  by (cases x) (simp_all add: optString_def z_string_def)

lemma z_string_JStr [simp]: "z_string (JStr s) = Inr s"
  by (simp add: z_string_def)

lemma truthy_obj [simp]: "truthy (obj kvs)"
  by (simp add: obj_def)

lemma physicalCharacteristics_again:
  "physicalCharacteristicsSchema
     (group (map_option PhysicalCharacteristics_toJSON p)
        [''size'', ''weight'', ''wingspan'', ''plumage'', ''bill'', ''legs'', ''eyeColor''])
   = Inr p"
  by (cases p)
    (simp_all add: physicalCharacteristicsSchema_def physicalCharacteristicsSchema_object_def
      group_def propOf_pick PhysicalCharacteristics_toJSON_def z_optional_optString propOf_obj_distinct
      del: propOf_obj_Cons)

lemma habitatAndRange_again:
  "habitatAndRangeSchema
     (group (map_option HabitatAndRange_toJSON p)
        [''preferredHabitat'', ''geographicRange'', ''rangeMapUrl''])
   = Inr p"
  by (cases p)
    (simp_all add: habitatAndRangeSchema_def habitatAndRangeSchema_object_def
      group_def propOf_pick HabitatAndRange_toJSON_def z_optional_optString propOf_obj_distinct
      del: propOf_obj_Cons)

lemma seasonalVariations_again:
  "seasonalVariationsSchema
     (group (map_option SeasonalVariations_toJSON p)
        [''breedingPlumage'', ''winterPlumage'', ''juvenilePlumage'', ''seasonalBehavior''])
   = Inr p"
  by (cases p)
    (simp_all add: seasonalVariationsSchema_def seasonalVariationsSchema_object_def
      group_def propOf_pick SeasonalVariations_toJSON_def z_optional_optString propOf_obj_distinct
      del: propOf_obj_Cons)

lemma birdSounds_again:
  "birdSoundsSchema
     (group (map_option BirdSounds_toJSON p) [''calls'', ''songs'', ''audioUrl''])
   = Inr p"
  by (cases p)
    (simp_all add: birdSoundsSchema_def birdSoundsSchema_object_def
      group_def propOf_pick BirdSounds_toJSON_def z_optional_optString propOf_obj_distinct
      del: propOf_obj_Cons)

lemma migrationPatterns_again:
  "\<exists>q. migrationPatternsSchema (migrationPatterns_raw (map_option MigrationPatterns_toJSON p))
        = Inr q"
  by (cases p)
    (simp_all add: migrationPatternsSchema_def migrationPatternsSchema_object_def
      migrationPatterns_raw_def MigrationPatterns_toJSON_def z_optional_optString
      z_boolean_def propOf_obj_distinct del: propOf_obj_Cons)


lemma clampRound_in_range: "1 \<le> n \<Longrightarrow> n \<le> 100 \<Longrightarrow> clampRound (rat_of_int n) = n"
  by (simp add: clampRound_def nearestInt_def floor_int_add_half)

lemma clampConfidence_again:
  assumes "1 \<le> n" and "n \<le> 100"
  shows "clampConfidence h (Some (jsnumber_toJSON (Num (rat_of_int n)))) = Inr (Num (rat_of_int n))"
  using assms by (simp add: jsnumber_toJSON_def clampConfidence_number clampRound_in_range)

lemma z_array_strings: "z_array z_string (JArr (map JStr xs)) = Inr xs"
  by (simp add: z_array_z_string)

lemma orElse_JArr: "orElse (Some (JArr xs)) d = JArr xs"
  by (simp add: orElse_def)

lemma z_number_Num: "z_number (JNum (Num q)) = Inr (Num q)"
  by (simp add: z_number_def)

lemma mainBird_again:
  assumes "confidence m = Num (rat_of_int n)" and "1 \<le> n" and "n \<le> 100"
  shows "\<exists>m'. bindE (mainBird_raw h (Bird_toJSON m)) birdSchema = Inr m'
            \<and> confidence m' = confidence m"
proof -
  obtain q where q: "migrationPatternsSchema
      (migrationPatterns_raw (map_option MigrationPatterns_toJSON (migrationPatterns m))) = Inr q"
    using migrationPatterns_again by blast
  have c: "clampConfidence h (Some (jsnumber_toJSON (confidence m))) = Inr (confidence m)"
    using assms clampConfidence_again by simp
  show ?thesis
    using q c assms(1)
    by (simp add: mainBird_raw_def birdSchema_def Bird_toJSON_def propOf_obj_distinct
        orElse_JStr orElse_optString orElse_JArr z_array_strings z_number_Num
        physicalCharacteristics_again habitatAndRange_again seasonalVariations_again
        birdSounds_again
        del: propOf_obj_Cons)
qed

lemma similarBird_again:
  assumes "similar_confidence s = Num (rat_of_int n)" and "1 \<le> n" and "n \<le> 100"
  shows "\<exists>s'. bindE (similarBird_raw h (SimilarBird_toJSON s)) similarBirdSchema = Inr s'
            \<and> similar_confidence s' = similar_confidence s"
proof -
  have c: "clampConfidence h (Some (jsnumber_toJSON (similar_confidence s)))
             = Inr (similar_confidence s)"
    using assms clampConfidence_again by simp
  have nn: "obj kvs \<noteq> JNull" for kvs by (simp add: obj_def)
  show ?thesis
    using c assms(1) nn
    by (simp add: similarBird_raw_def similarBirdSchema_def getProp_Some
        SimilarBird_toJSON_def propOf_obj_distinct orElse_JStr z_number_Num
        del: propOf_obj_Cons)
qed


lemma similarBirds_again:
  assumes "\<forall>s\<in>set ss. \<exists>n. similar_confidence s = Num (rat_of_int n) \<and> 1 \<le> n \<and> n \<le> 100"
  shows "\<exists>raws ss'. mapE (similarBird_raw h) (map SimilarBird_toJSON ss) = Inr raws
            \<and> mapE similarBirdSchema raws = Inr ss'
            \<and> map similar_confidence ss' = map similar_confidence ss"
  using assms
proof (induction ss)
  case Nil
  then show ?case by simp
next
  case (Cons s ss)
  from Cons.prems obtain n where n: "similar_confidence s = Num (rat_of_int n)" "1 \<le> n" "n \<le> 100"
    by auto
  from similarBird_again[OF n, of h] obtain raw s' where s':
    "similarBird_raw h (SimilarBird_toJSON s) = Inr raw" "similarBirdSchema raw = Inr s'"
    "similar_confidence s' = similar_confidence s"
    by (auto simp: bindE_eq_Inr)
  from Cons.IH Cons.prems obtain raws ss' where r:
    "mapE (similarBird_raw h) (map SimilarBird_toJSON ss) = Inr raws"
    "mapE similarBirdSchema raws = Inr ss'"
    "map similar_confidence ss' = map similar_confidence ss"
    by auto
  have "mapE (similarBird_raw h) (map SimilarBird_toJSON (s # ss)) = Inr (raw # raws)"
    using s'(1) r(1) by simp
  moreover have "mapE similarBirdSchema (raw # raws) = Inr (s' # ss')"
    using s'(2) r(2) by simp
  moreover have "map similar_confidence (s' # ss') = map similar_confidence (s # ss)"
    using s'(3) r(3) by simp
  ultimately show ?case by blast
qed

text \<open>
  Claim C9. A result that the function returned, written as JSON and given to the
  function again (with any host and any image), is accepted, and the confidence of the
  primary bird and of each similar bird, in order, is the one of the first result.
\<close>

theorem renormalizing_keeps_confidence:
  assumes "identifyBirdWithGemini h img pr = Inr r"
  shows "\<exists>r' ss ss'. identifyBirdWithGemini h' img' (IdentificationResult_toJSON r) = Inr r'
          \<and> confidence (mainBird r') = confidence (mainBird r)
          \<and> similarBirds r = Some ss \<and> similarBirds r' = Some ss'
          \<and> map similar_confidence ss' = map similar_confidence ss"
proof -
  let ?J = "IdentificationResult_toJSON r"
  let ?m = "mainBird r"
  note sh = accepted_shape[OF assms]
  from sh(2) obtain n where n: "confidence ?m = Num (rat_of_int n)" "1 \<le> n" "n \<le> 100"
    by blast
  from sh(3) obtain ss where ss: "similarBirds r = Some ss"
    "\<forall>s\<in>set ss. \<exists>n. similar_confidence s = Num (rat_of_int n) \<and> 1 \<le> n \<and> n \<le> 100"
    by blast
  from mainBird_again[OF n, of h'] obtain b' m' where m':
    "mainBird_raw h' (Bird_toJSON ?m) = Inr b'" "birdSchema b' = Inr m'"
    "confidence m' = confidence ?m"
    by (auto simp: bindE_eq_Inr)
  from similarBirds_again[OF ss(2), of h'] obtain raws ss' where ss':
    "mapE (similarBird_raw h') (map SimilarBird_toJSON ss) = Inr raws"
    "mapE similarBirdSchema raws = Inr ss'"
    "map similar_confidence ss' = map similar_confidence ss"
    by blast
  have J: "?J \<noteq> JNull" "propOf ?J ''error'' = None"
    "propOf ?J ''mainBird'' = Some (Bird_toJSON ?m)"
    "propOf ?J ''similarBirds'' = Some (JArr (map SimilarBird_toJSON ss))"
    using ss(1)
    by (simp_all add: IdentificationResult_toJSON_def propOf_obj_distinct obj_def
        del: propOf_obj_Cons)
  have nm: "truthy (Bird_toJSON ?m)" "truthyv (propOf (Bird_toJSON ?m) ''name'')"
    using sh(1)
    by (simp_all add: Bird_toJSON_def propOf_obj_distinct truthyv_def del: propOf_obj_Cons)
  have sb: "similarBirds_raw h' (Some (JArr (map SimilarBird_toJSON ss))) = Inr (JArr raws)"
    using ss'(1) by (simp add: similarBirds_raw_def)
  have v: "validatedResult h' img' ?J (Bird_toJSON ?m) =
             Inr (obj [(''mainBird'', Some b'), (''similarBirds'', Some (JArr raws)),
                       (''originalImage'', Some (JStr (originalImage_raw img')))])"
    using m'(1) sb J by (simp add: validatedResult_def getProp_Some)
  have z: "identificationResultSchema
             (obj [(''mainBird'', Some b'), (''similarBirds'', Some (JArr raws)),
                   (''originalImage'', Some (JStr (originalImage_raw img')))])
           = Inr \<lparr>mainBird = m', similarBirds = Some ss',
                  originalImage = originalImage_raw img'\<rparr>"
    using m'(2) ss'(2)
    by (simp add: identificationResultSchema_def propOf_obj_distinct z_array_def
        del: propOf_obj_Cons)
  have "identifyBirdWithGemini_try h' img' ?J
          = Inr \<lparr>mainBird = m', similarBirds = Some ss', originalImage = originalImage_raw img'\<rparr>"
    using J nm v z by (simp add: identifyBirdWithGemini_try_def getProp_Some truthyv_def)
  then have "identifyBirdWithGemini h' img' ?J
          = Inr \<lparr>mainBird = m', similarBirds = Some ss', originalImage = originalImage_raw img'\<rparr>"
    by (simp add: accepted_try)
  then show ?thesis using m'(3) ss(1) ss'(3) by simp
qed

theorem renormalizing_keeps_confidence_witness:
  "\<exists>r r' ss ss'. identifyBirdWithGemini host0 None robin150 = Inr r
      \<and> identifyBirdWithGemini host0 None (IdentificationResult_toJSON r) = Inr r'
      \<and> confidence (mainBird r) = Num 100
      \<and> confidence (mainBird r') = Num 100
      \<and> similarBirds r = Some ss \<and> similarBirds r' = Some ss'
      \<and> map similar_confidence ss = [Num 73]
      \<and> map similar_confidence ss' = [Num 73]"
proof -
  obtain r where acc: "identifyBirdWithGemini host0 None robin150 = Inr r"
    and c: "confidence (mainBird r) = Num 100"
    and s: "map_option (map similar_confidence) (similarBirds r) = Some [Num 73]"
    by (simp add: eval_defs robin150_def)
  from renormalizing_keeps_confidence[OF acc, of host0 None] obtain r' ss ss' where
    "identifyBirdWithGemini host0 None (IdentificationResult_toJSON r) = Inr r'"
    "confidence (mainBird r') = confidence (mainBird r)"
    "similarBirds r = Some ss" "similarBirds r' = Some ss'"
    "map similar_confidence ss' = map similar_confidence ss"
    by blast
  then show ?thesis using acc c s by auto
qed


end
